theory Spec2Isabelle
  imports Complex_Main
begin

section \<open>KTCC tool changer: data model\<close>

text \<open>
  The development embeds the tool-selection and heater logic of \<^verbatim>\<open>tool.py\<close> and
  \<^verbatim>\<open>toollock.py\<close>. Python objects live in stores addressed by the key under which the
  printer registers them: a tool by the integer of its section \<^verbatim>\<open>tool N\<close> (its
  \<^verbatim>\<open>name\<close>), a standby timer by the tool that created it and its kind. Two tools
  that refer to the same timer share it. Times and temperatures are rationals. The
  collaborators outside the three source files (G-code runner, heaters, reactor, variable
  store, statistics log) are not interpreted: what the code sends to them is appended to
  a trace, what it reads from them comes from an environment. A G-code command is
  recorded by its kind and the arguments the code computes; of the input shaper command
  only the two frequencies are kept. A hook is recorded by its kind and its tool; the
  status dictionaries handed to its template are not. Calls that only write to the log
  are left out, calls that feed the statistics are recorded.
\<close>

definition TOOL_UNKNOWN :: int where "TOOL_UNKNOWN = - 2"
definition TOOL_UNLOCKED :: int where "TOOL_UNLOCKED = - 1"
definition HEATER_STATE_ACTIVE :: int where "HEATER_STATE_ACTIVE = 2"
definition HEATER_STATE_STANDBY :: int where "HEATER_STATE_STANDBY = 1"
definition HEATER_STATE_OFF :: int where "HEATER_STATE_OFF = 0"

datatype temp_type = TIMER_TO_SHUTDOWN | TIMER_TO_STANDBY

type_synonym timer_ref = "int \<times> temp_type"

record tool =
  is_virtual :: bool
  physical_parent_id :: "int option"
  extruder :: "string option"
  fan :: "string option"
  lazy_home_when_parking :: int
  shaper_freq_x :: rat
  shaper_freq_y :: rat
  unload_virtual_at_dropoff :: bool
  virtual_loaded :: int
  heater_state :: int
  heater_active_temp :: rat
  heater_standby_temp :: rat
  idle_to_standby_time :: rat
  idle_to_powerdown_time :: rat
  timer_idle_to_standby :: "timer_ref option"
  timer_idle_to_powerdown :: "timer_ref option"

record timer =
  last_virtual_tool_using_physical_timer :: "int option"
  duration :: rat
  inside_timer :: bool
  repeat :: bool
  counting_down :: bool
  nextwake :: "rat option"

datatype hook = PickupHook | DropoffHook | LoadVirtualHook | UnloadVirtualHook

datatype event =
    RunHook hook int
  | ActivateExtruder string
  | Dwell
  | SetFanSpeed string rat
  | SetInputShaper int rat rat
  | Home string
  | TemperatureWait string int int
  | SetTemp string rat
  | UpdateTimer timer_ref "rat option"
  | SaveVariable int
  | Stat string int
  | HeaterStat string "int option"

datatype error =
    InvalidState
  | NotHomed
  | GcodeScriptError hook
  | UnknownObject
  | AttributeError
  | TypeError
  | InvalidRestoreType
  | InternalError
  | TimerError

record heater_status =
  temperature :: rat
  target :: rat

record env =
  homed_axes :: string
  monotonic :: rat
  heaters :: "string \<rightharpoonup> heater_status"
  hook_fails :: "hook \<Rightarrow> int \<Rightarrow> bool"

record state =
  tools :: "int \<rightharpoonup> tool"
  timers :: "timer_ref \<rightharpoonup> timer"
  tool_current :: int
  tool_map :: "int \<rightharpoonup> int"
  saved_fan_speed :: rat
  trace :: "event list"

type_synonym outcome = "error option \<times> state"

section \<open>Sequencing\<close>

text \<open>
  A method is a function from the state to an outcome: \<open>None\<close> when it returns,
  \<open>Some e\<close> when it raises, with the state as it is at that moment. \<open>run\<close> executes
  statements in order and stops at the first one that raises.
\<close>

fun run :: "(state \<Rightarrow> outcome) list \<Rightarrow> state \<Rightarrow> outcome" where
  "run [] s = (None, s)"
| "run (f # fs) s = (case f s of (None, s') \<Rightarrow> run fs s' | (Some e, s') \<Rightarrow> (Some e, s'))"

definition emit :: "event \<Rightarrow> state \<Rightarrow> outcome" where
  "emit ev s = (None, s\<lparr>trace := trace s @ [ev]\<rparr>)"

definition only_if :: "bool \<Rightarrow> (state \<Rightarrow> outcome) \<Rightarrow> state \<Rightarrow> outcome" where
  "only_if b f s = (if b then f s else (None, s))"

definition py_int :: "rat \<Rightarrow> int" where
  "py_int x = (if 0 \<le> x then \<lfloor>x\<rfloor> else \<lceil>x\<rceil>)"

section \<open>ToolLock\<close>

text \<open>\<^verbatim>\<open>ToolLock.SaveCurrentTool\<close>: stores the id and saves the variable \<^verbatim>\<open>tool_current\<close>.\<close>

definition SaveCurrentTool :: "int \<Rightarrow> state \<Rightarrow> outcome" where
  "SaveCurrentTool t s = emit (SaveVariable t) (s\<lparr>tool_current := t\<rparr>)"

text \<open>
  \<^verbatim>\<open>ToolLock.PrinterIsHomedForToolchange(lazy_home_when_parking=0)\<close>: returns whether
  the tool change may go on, after homing the missing axes where the policy allows it.
\<close>

definition all_homed :: "string \<Rightarrow> bool" where
  "all_homed homed = (\<forall>axis \<in> set ''xyz''. axis \<in> set homed)"

text \<open>\<^verbatim>\<open>str.lower\<close> and \<^verbatim>\<open>str.upper\<close>, on the letters A to Z and a to z.\<close>

definition lower :: "string \<Rightarrow> string" where
  "lower cs = map (\<lambda>c. let n = (of_char c :: nat) in
                        if 65 \<le> n \<and> n \<le> 90 then char_of (n + 32) else c) cs"

definition upper :: "string \<Rightarrow> string" where
  "upper cs = map (\<lambda>c. let n = (of_char c :: nat) in
                        if 97 \<le> n \<and> n \<le> 122 then char_of (n - 32) else c) cs"

definition PrinterIsHomedForToolchange :: "env \<Rightarrow> int \<Rightarrow> state \<Rightarrow> bool \<times> state" where
  "PrinterIsHomedForToolchange E lazy s =
     (let homed = lower (homed_axes E) in
      if all_homed homed then (True, s)
      else if lazy = 0 \<and> \<not> all_homed homed then (False, s)
      else if lazy = 1 \<and> CHR ''z'' \<notin> set homed then (False, s)
      else (True, s\<lparr>trace := trace s @ [Home (upper (filter (\<lambda>axis. axis \<notin> set homed) ''xyz''))]\<rparr>))"

text \<open>\<^verbatim>\<open>ToolLock.tool_is_remaped\<close>: \<^verbatim>\<open>self.tool_map.get(tool_to_check, -1)\<close>.\<close>

definition tool_is_remaped :: "state \<Rightarrow> int \<Rightarrow> int" where
  "tool_is_remaped s tool_to_check = (case tool_map s tool_to_check of None \<Rightarrow> - 1 | Some t \<Rightarrow> t)"

text \<open>
  \<^verbatim>\<open>ToolLock._Temperature_wait_with_tolerance\<close>: the wait itself is the G-code command
  \<^verbatim>\<open>TEMPERATURE_WAIT\<close>, recorded with its sensor, minimum and maximum.
\<close>

definition Temperature_wait_with_tolerance :: "env \<Rightarrow> string option \<Rightarrow> int \<Rightarrow> state \<Rightarrow> outcome" where
  "Temperature_wait_with_tolerance E heater_name tolerance s =
     (case heater_name of None \<Rightarrow> (Some UnknownObject, s)
      | Some h \<Rightarrow>
        (case heaters E h of None \<Rightarrow> (Some UnknownObject, s)
         | Some st \<Rightarrow>
           (let target_temp = py_int (target st) in
            if target_temp > 40
            then emit (TemperatureWait h (target_temp - tolerance) (target_temp + tolerance)) s
            else (None, s))))"

section \<open>Tool: pickup, dropoff, virtual load and unload\<close>

text \<open>
  A hook is the tool's G-code template. The call is recorded, then it raises where the
  environment says so; the \<^verbatim>\<open>try\<close> around it turns any exception into the script
  error of that hook.
\<close>

definition run_hook :: "env \<Rightarrow> hook \<Rightarrow> int \<Rightarrow> state \<Rightarrow> outcome" where
  "run_hook E h n s =
     (let s' = s\<lparr>trace := trace s @ [RunHook h n]\<rparr> in
      if hook_fails E h n then (Some (GcodeScriptError h), s') else (None, s'))"

definition Pickup :: "env \<Rightarrow> int \<Rightarrow> state \<Rightarrow> outcome" where
  "Pickup E self s =
     (case tools s self of None \<Rightarrow> (Some UnknownObject, s)
      | Some T \<Rightarrow>
        run [emit (Stat ''track_mount_start'' self),
             (\<lambda>s. case PrinterIsHomedForToolchange E 0 s of
                     (homed, s') \<Rightarrow> if \<not> homed then (Some NotHomed, s') else (None, s')),
             (\<lambda>s. case extruder T of None \<Rightarrow> (None, s) | Some x \<Rightarrow> emit (ActivateExtruder x) s),
             emit Dwell,
             run_hook E PickupHook self,
             (\<lambda>s. case fan T of None \<Rightarrow> (None, s) | Some f \<Rightarrow> emit (SetFanSpeed f (saved_fan_speed s)) s),
             only_if (shaper_freq_x T \<noteq> 0 \<or> shaper_freq_y T \<noteq> 0)
               (emit (SetInputShaper self (shaper_freq_x T) (shaper_freq_y T))),
             SaveCurrentTool self,
             emit (Stat ''track_mount_end'' self)] s)"

definition Dropoff :: "env \<Rightarrow> int \<Rightarrow> bool \<Rightarrow> state \<Rightarrow> outcome" where
  "Dropoff E self force_virtual_unload s =
     (case tools s self of None \<Rightarrow> (Some UnknownObject, s)
      | Some T \<Rightarrow>
        (case PrinterIsHomedForToolchange E 0 s of
           (homed, s') \<Rightarrow>
             if \<not> homed then (None, s')
             else run [(\<lambda>s. case fan T of None \<Rightarrow> (None, s) | Some f \<Rightarrow> emit (SetFanSpeed f 0) s),
                       emit Dwell,
                       run_hook E DropoffHook self,
                       SaveCurrentTool TOOL_UNLOCKED,
                       emit (Stat ''track_unmount_end'' self)] s'))"

text \<open>
  \<^verbatim>\<open>Tool.set_virtual_loaded\<close> on the object found by
  \<^verbatim>\<open>lookup_object('tool ' + str(self.physical_parent_id))\<close>.
\<close>

definition set_virtual_loaded :: "int option \<Rightarrow> int \<Rightarrow> state \<Rightarrow> outcome" where
  "set_virtual_loaded pp v s =
     (case pp of None \<Rightarrow> (Some UnknownObject, s)
      | Some p \<Rightarrow>
        (case tools s p of None \<Rightarrow> (Some UnknownObject, s)
         | Some P \<Rightarrow> (None, s\<lparr>tools := (tools s)(p \<mapsto> P\<lparr>virtual_loaded := v\<rparr>)\<rparr>)))"

text \<open>
  The virtual templates exist only on a tool built with \<^verbatim>\<open>is_virtual\<close> set; on another
  tool the attribute lookup fails inside the \<^verbatim>\<open>try\<close>, before any script runs.
\<close>

definition run_virtual_hook :: "env \<Rightarrow> hook \<Rightarrow> int \<Rightarrow> tool \<Rightarrow> state \<Rightarrow> outcome" where
  "run_virtual_hook E h self T s =
     (if \<not> is_virtual T then (Some (GcodeScriptError h), s) else run_hook E h self s)"

definition LoadVirtual :: "env \<Rightarrow> int \<Rightarrow> state \<Rightarrow> outcome" where
  "LoadVirtual E self s =
     (case tools s self of None \<Rightarrow> (Some UnknownObject, s)
      | Some T \<Rightarrow>
        run [emit (Stat ''track_mount_start'' self),
             run_virtual_hook E LoadVirtualHook self T,
             set_virtual_loaded (physical_parent_id T) self,
             SaveCurrentTool self,
             emit (Stat ''track_mount_end'' self)] s)"

definition UnloadVirtual :: "env \<Rightarrow> int \<Rightarrow> state \<Rightarrow> outcome" where
  "UnloadVirtual E self s =
     (case tools s self of None \<Rightarrow> (Some UnknownObject, s)
      | Some T \<Rightarrow>
        run [emit (Stat ''track_unmount_start'' self),
             run_virtual_hook E UnloadVirtualHook self T,
             set_virtual_loaded (physical_parent_id T) (- 1),
             SaveCurrentTool self,
             emit (Stat ''track_unmount_end'' self)] s)"

section \<open>Standby timers\<close>

text \<open>
  \<^verbatim>\<open>ToolStandbyTempTimer.set_timer(duration, actual_tool_calling)\<close> on the timer a
  tool refers to. \<open>None\<close> as a wake time is the reactor's \<^verbatim>\<open>NEVER\<close>.
\<close>

definition min_duration_threshold :: rat where
  "min_duration_threshold = 1 / 2"

definition set_timer :: "env \<Rightarrow> timer_ref option \<Rightarrow> rat \<Rightarrow> int \<Rightarrow> state \<Rightarrow> outcome" where
  "set_timer E r d actual_tool_calling s =
     (case r of None \<Rightarrow> (Some AttributeError, s)
      | Some k \<Rightarrow>
        (case timers s k of None \<Rightarrow> (Some AttributeError, s)
         | Some tm \<Rightarrow>
           (let d' = max d min_duration_threshold;
                tm1 = tm\<lparr>duration := d',
                         last_virtual_tool_using_physical_timer := Some actual_tool_calling\<rparr>
            in if inside_timer tm1
               then (None, s\<lparr>timers := (timers s)(k \<mapsto> tm1\<lparr>repeat := (d' \<noteq> 0)\<rparr>)\<rparr>)
               else (let waketime = (if d' \<noteq> 0 then Some (monotonic E + d') else None);
                         tm2 = (if d' \<noteq> 0 then tm1\<lparr>nextwake := waketime\<rparr> else tm1)
                     in (None, s\<lparr>timers := (timers s)(k \<mapsto> tm2\<lparr>counting_down := True\<rparr>),
                                  trace := trace s @ [UpdateTimer k waketime]\<rparr>)))))"

definition modify_tool :: "int \<Rightarrow> (tool \<Rightarrow> tool) \<Rightarrow> state \<Rightarrow> outcome" where
  "modify_tool n f s =
     (case tools s n of None \<Rightarrow> (Some UnknownObject, s)
      | Some T \<Rightarrow> (None, s\<lparr>tools := (tools s)(n \<mapsto> f T)\<rparr>))"

text \<open>
  \<^verbatim>\<open>ToolStandbyTempTimer._standby_tool_temp_timer_event(eventtime)\<close>, the callback the
  reactor runs when the timer \<open>k\<close> fires. Any exception of the body is raised again as
  one error, with the timer left inside its callback.
\<close>

definition timer_event_body :: "env \<Rightarrow> timer_ref \<Rightarrow> timer \<Rightarrow> state \<Rightarrow> outcome" where
  "timer_event_body E k tm s =
     (case last_virtual_tool_using_physical_timer tm of None \<Rightarrow> (Some InternalError, s)
      | Some v \<Rightarrow>
        (case tools s v of None \<Rightarrow> (Some UnknownObject, s)
         | Some T \<Rightarrow>
           (case extruder T of None \<Rightarrow> (Some UnknownObject, s)
            | Some x \<Rightarrow>
              (case heaters E x of None \<Rightarrow> (Some UnknownObject, s)
               | Some h \<Rightarrow>
                 run [(if snd k = TIMER_TO_STANDBY
                       then run [emit (Stat ''track_standby_heater_start'' (fst k)),
                                 emit (SetTemp x (heater_standby_temp T))]
                       else run [emit (Stat ''track_standby_heater_end'' (fst k)),
                                 set_timer E (timer_idle_to_standby T) 0 v,
                                 modify_tool v (\<lambda>T. T\<lparr>heater_state := HEATER_STATE_OFF\<rparr>),
                                 emit (SetTemp x 0)]),
                      emit (Stat ''track_active_heater_end'' (fst k))] s))))"

definition standby_tool_temp_timer_event :: "env \<Rightarrow> timer_ref \<Rightarrow> rat \<Rightarrow> state \<Rightarrow> outcome" where
  "standby_tool_temp_timer_event E k eventtime s =
     (case timers s k of None \<Rightarrow> (Some UnknownObject, s)
      | Some tm \<Rightarrow>
        (let tm0 = tm\<lparr>inside_timer := True, counting_down := False\<rparr>;
             s0 = s\<lparr>timers := (timers s)(k \<mapsto> tm0)\<rparr>
         in case timer_event_body E k tm0 s0 of
              (Some e, s1) \<Rightarrow> (Some TimerError, s1)
            | (None, s1) \<Rightarrow>
              (case timers s1 k of None \<Rightarrow> (Some UnknownObject, s1)
               | Some tm1 \<Rightarrow>
                 (let tm2 = (if repeat tm1
                             then tm1\<lparr>nextwake := Some (eventtime + duration tm1), counting_down := True\<rparr>
                             else tm1\<lparr>nextwake := None\<rparr>)
                  in (None, s1\<lparr>timers := (timers s1)(k \<mapsto> tm2\<lparr>inside_timer := False, repeat := False\<rparr>)\<rparr>)))))"

section \<open>Tool: heater state machine\<close>

text \<open>The keyword arguments of \<^verbatim>\<open>Tool.set_heater(**kwargs)\<close>, in the order given.\<close>

datatype kwarg =
    Heater_state int
  | Heater_active_temp rat
  | Heater_standby_temp rat
  | Idle_to_standby_time rat
  | Idle_to_powerdown_time rat

fun chng_state_of :: "kwarg list \<Rightarrow> int option" where
  "chng_state_of [] = None"
| "chng_state_of (Heater_state c # kws) = Some c"
| "chng_state_of (_ # kws) = chng_state_of kws"

text \<open>
  The loop \<^verbatim>\<open>for i in kwargs\<close>: it writes the tool's own fields, pushes a changed
  temperature of the state the tool is in, and notes whether a timer duration changed.
\<close>

fun kwargs_loop :: "string \<Rightarrow> kwarg list \<Rightarrow> tool \<times> bool \<times> event list \<Rightarrow> tool \<times> bool \<times> event list" where
  "kwargs_loop x [] acc = acc"
| "kwargs_loop x (Heater_active_temp v # kws) (T, changing_timer, evs) =
     kwargs_loop x kws
       (T\<lparr>heater_active_temp := v\<rparr>, changing_timer,
        (if heater_state T = HEATER_STATE_ACTIVE then evs @ [SetTemp x v] else evs))"
| "kwargs_loop x (Heater_standby_temp v # kws) (T, changing_timer, evs) =
     kwargs_loop x kws
       (T\<lparr>heater_standby_temp := v\<rparr>, changing_timer,
        (if heater_state T = HEATER_STATE_STANDBY then evs @ [SetTemp x v] else evs))"
| "kwargs_loop x (Idle_to_standby_time v # kws) (T, changing_timer, evs) =
     kwargs_loop x kws (T\<lparr>idle_to_standby_time := v\<rparr>, True, evs)"
| "kwargs_loop x (Idle_to_powerdown_time v # kws) (T, changing_timer, evs) =
     kwargs_loop x kws (T\<lparr>idle_to_powerdown_time := v\<rparr>, True, evs)"
| "kwargs_loop x (Heater_state c # kws) acc = kwargs_loop x kws acc"

text \<open>Already in standby with a changed duration: the timers that count down are set again.\<close>

definition rearm_standby :: "env \<Rightarrow> int \<Rightarrow> tool \<Rightarrow> bool \<Rightarrow> state \<Rightarrow> outcome" where
  "rearm_standby E self T changing_timer s =
     (if heater_state T = HEATER_STATE_STANDBY \<and> changing_timer
      then run [(\<lambda>s. case timer_idle_to_powerdown T of None \<Rightarrow> (Some AttributeError, s)
                      | Some k \<Rightarrow> (case timers s k of None \<Rightarrow> (Some AttributeError, s)
                                  | Some tm \<Rightarrow> only_if (counting_down tm)
                                      (set_timer E (Some k) (idle_to_powerdown_time T) self) s)),
                (\<lambda>s. case timer_idle_to_standby T of None \<Rightarrow> (Some AttributeError, s)
                      | Some k \<Rightarrow> (case timers s k of None \<Rightarrow> (Some AttributeError, s)
                                  | Some tm \<Rightarrow> only_if (counting_down tm)
                                      (set_timer E (Some k) (idle_to_standby_time T) self) s))] s
      else (None, s))"

text \<open>The second part of \<^verbatim>\<open>set_heater\<close>, taken when \<^verbatim>\<open>heater_state\<close> is among the arguments.\<close>

definition change_state :: "env \<Rightarrow> int \<Rightarrow> tool \<Rightarrow> string \<Rightarrow> heater_status \<Rightarrow> int option \<Rightarrow> int \<Rightarrow> state \<Rightarrow> outcome" where
  "change_state E self T x h tool_for_tracking_heater chng_state s =
     (if heater_state T = chng_state
      then (if chng_state = HEATER_STATE_ACTIVE then emit (SetTemp x (heater_active_temp T)) s
            else if chng_state = HEATER_STATE_STANDBY then emit (SetTemp x (heater_standby_temp T)) s
            else (None, s))
      else run [(if chng_state = HEATER_STATE_OFF
                 then run [set_timer E (timer_idle_to_standby T) 0 self,
                           set_timer E (timer_idle_to_powerdown T) (1 / 10) self]
                 else if chng_state = HEATER_STATE_ACTIVE
                 then run [set_timer E (timer_idle_to_standby T) 0 self,
                           set_timer E (timer_idle_to_powerdown T) 0 self,
                           emit (SetTemp x (heater_active_temp T)),
                           emit (HeaterStat ''track_standby_heater_end'' tool_for_tracking_heater),
                           emit (HeaterStat ''track_active_heater_start'' tool_for_tracking_heater)]
                 else if chng_state = HEATER_STATE_STANDBY
                 then (if heater_state T = HEATER_STATE_ACTIVE
                          \<and> py_int (heater_standby_temp T) < py_int (temperature h)
                       then run [set_timer E (timer_idle_to_standby T) (idle_to_standby_time T) self,
                                 set_timer E (timer_idle_to_powerdown T) (idle_to_powerdown_time T) self]
                       else run [set_timer E (timer_idle_to_standby T) (1 / 10) self,
                                 set_timer E (timer_idle_to_powerdown T) (idle_to_powerdown_time T) self])
                 else run []),
                modify_tool self (\<lambda>T. T\<lparr>heater_state := chng_state\<rparr>)] s)"

definition set_heater :: "env \<Rightarrow> int \<Rightarrow> kwarg list \<Rightarrow> state \<Rightarrow> outcome" where
  "set_heater E self kwargs s =
     (case tools s self of None \<Rightarrow> (Some UnknownObject, s)
      | Some T \<Rightarrow>
        (case extruder T of None \<Rightarrow> (None, s)
         | Some x \<Rightarrow>
           (case heaters E x of None \<Rightarrow> (Some UnknownObject, s)
            | Some h \<Rightarrow>
              (let tool_for_tracking_heater = (if is_virtual T then physical_parent_id T else Some self)
               in case kwargs_loop x kwargs (T, False, []) of
                    (T1, changing_timer, evs) \<Rightarrow>
                      run [rearm_standby E self T1 changing_timer,
                           (\<lambda>s. case chng_state_of kwargs of None \<Rightarrow> (None, s)
                                 | Some c \<Rightarrow> change_state E self T1 x h tool_for_tracking_heater c s)]
                          (s\<lparr>tools := (tools s)(self \<mapsto> T1), trace := trace s @ evs\<rparr>)))))"

section \<open>Tool: selection\<close>

text \<open>
  \<^verbatim>\<open>parse_restore_type(gcmd, arg_name, default)\<close>; the command's parameters are a map
  from parameter names to their text.
\<close>

definition XYZ_TO_INDEX :: "char \<rightharpoonup> nat" where
  "XYZ_TO_INDEX = [CHR ''x'' \<mapsto> 0, CHR ''X'' \<mapsto> 0, CHR ''y'' \<mapsto> 1, CHR ''Y'' \<mapsto> 1,
                   CHR ''z'' \<mapsto> 2, CHR ''Z'' \<mapsto> 2]"

definition parse_restore_type :: "(string \<rightharpoonup> string) \<Rightarrow> string \<Rightarrow> string option \<Rightarrow> error + string option" where
  "parse_restore_type gcmd arg_name dflt =
     (case gcmd arg_name of None \<Rightarrow> Inr dflt
      | Some ty \<Rightarrow>
          if ty = ''0'' then Inr (Some [])
          else if ty = ''1'' then Inr (Some ''XY'')
          else if ty = ''2'' then Inr (Some ''XYZ'')
          else if list_ex (\<lambda>c. XYZ_TO_INDEX c = None) ty then Inl InvalidRestoreType
          else Inr (Some ty))"

text \<open>
  The mounted tool is put away (lines 286 to 302 of \<^verbatim>\<open>tool.py\<close>). The result is the
  local \<^verbatim>\<open>current_tool_id\<close> afterwards. The comparison is
  \<^verbatim>\<open>int(self.physical_parent_id == self.TOOL_UNLOCKED or self.physical_parent_id)
  != int(current_tool.get_status()["physical_parent_id"])\<close>: an \<^verbatim>\<open>or\<close> whose left side
  holds is \<^verbatim>\<open>True\<close>, and \<^verbatim>\<open>int(True)\<close> is 1; \<^verbatim>\<open>int(None)\<close> is a type error.
\<close>

definition parent_for_comparison :: "int \<Rightarrow> int" where
  "parent_for_comparison p = (if p = TOOL_UNLOCKED then 1 else p)"

definition unmount_current :: "env \<Rightarrow> tool \<Rightarrow> int \<Rightarrow> state \<Rightarrow> (error + int) \<times> state" where
  "unmount_current E T current_tool_id s =
     (if current_tool_id > TOOL_UNLOCKED
      then (let s1 = s\<lparr>trace := trace s @ [Stat ''track_selected_tool_end'' current_tool_id]\<rparr>
            in case tools s1 current_tool_id of None \<Rightarrow> (Inl UnknownObject, s1)
               | Some C \<Rightarrow>
                 (case physical_parent_id T of None \<Rightarrow> (Inl TypeError, s1)
                  | Some p \<Rightarrow>
                    (case physical_parent_id C of None \<Rightarrow> (Inl TypeError, s1)
                     | Some q \<Rightarrow>
                         if parent_for_comparison p \<noteq> q
                         then (case Dropoff E current_tool_id False s1 of
                                 (None, s2) \<Rightarrow> (Inr TOOL_UNLOCKED, s2)
                               | (Some e, s2) \<Rightarrow> (Inl e, s2))
                         else (case UnloadVirtual E current_tool_id s1 of
                                 (None, s2) \<Rightarrow> (Inr current_tool_id, s2)
                               | (Some e, s2) \<Rightarrow> (Inl e, s2)))))
      else (Inr current_tool_id, s))"

text \<open>
  A virtual tool other than this one is resident on the physical tool just picked up
  (lines 335 to 344): it is heated, waited for and unloaded first.
\<close>

definition unload_resident :: "env \<Rightarrow> int \<Rightarrow> tool \<Rightarrow> int \<Rightarrow> state \<Rightarrow> outcome" where
  "unload_resident E self T pp_virtual_loaded s =
     (case tools s pp_virtual_loaded of None \<Rightarrow> (Some UnknownObject, s)
      | Some UV \<Rightarrow>
        run [only_if (extruder UV \<noteq> None)
               (run [set_heater E pp_virtual_loaded [Heater_state HEATER_STATE_ACTIVE],
                     Temperature_wait_with_tolerance E (extruder T) 2]),
             UnloadVirtual E pp_virtual_loaded,
             set_heater E self [Heater_state HEATER_STATE_ACTIVE]] s)"

text \<open>The selected tool is mounted (lines 309 to 348).\<close>

definition mount_selected :: "env \<Rightarrow> int \<Rightarrow> tool \<Rightarrow> int \<Rightarrow> state \<Rightarrow> outcome" where
  "mount_selected E self T current_tool_id s =
     (if \<not> is_virtual T then Pickup E self s
      else if current_tool_id > TOOL_UNLOCKED
      then (case tools s current_tool_id of None \<Rightarrow> (Some UnknownObject, s)
            | Some C \<Rightarrow>
              (case physical_parent_id T of None \<Rightarrow> (Some TypeError, s)
               | Some p \<Rightarrow>
                   if p > TOOL_UNLOCKED \<and> Some p = physical_parent_id C
                   then LoadVirtual E self s
                   else (Some InternalError, s)))
      else (case physical_parent_id T of None \<Rightarrow> (Some UnknownObject, s)
            | Some p \<Rightarrow>
              (case tools s p of None \<Rightarrow> (Some UnknownObject, s)
               | Some PP \<Rightarrow>
                 (let pp_virtual_loaded = virtual_loaded PP
                  in run [Pickup E self,
                          only_if (pp_virtual_loaded > TOOL_UNLOCKED \<and> pp_virtual_loaded \<noteq> self)
                            (unload_resident E self T pp_virtual_loaded),
                          LoadVirtual E self] s))))"

text \<open>
  \<^verbatim>\<open>Tool.select_tool_actual(restore_mode)\<close>. With a restore mode the source calls
  \<^verbatim>\<open>self.toollock.SaveCurrentPosition\<close>, a method \<^verbatim>\<open>ToolLock\<close> does not define: the
  call raises the attribute error.
\<close>

definition select_tool_actual :: "env \<Rightarrow> int \<Rightarrow> string option \<Rightarrow> state \<Rightarrow> outcome" where
  "select_tool_actual E self restore_mode s =
     (case tools s self of None \<Rightarrow> (Some UnknownObject, s)
      | Some T \<Rightarrow>
        (let current_tool_id = tool_current s
         in if current_tool_id = self then (None, s)
            else if current_tool_id < TOOL_UNLOCKED then (Some InvalidState, s)
            else run [emit (Stat ''toolmounts_started'' self),
                      only_if (extruder T \<noteq> None) (set_heater E self [Heater_state HEATER_STATE_ACTIVE]),
                      only_if (restore_mode \<noteq> None) (\<lambda>s. (Some AttributeError, s)),
                      (\<lambda>s. case unmount_current E T current_tool_id s of
                              (Inl e, s') \<Rightarrow> (Some e, s')
                            | (Inr current_tool_id', s') \<Rightarrow> mount_selected E self T current_tool_id' s'),
                      SaveCurrentTool self,
                      emit (Stat ''track_selected_tool_start'' self)] s))"

text \<open>
  \<^verbatim>\<open>Tool.cmd_SelectTool(gcmd)\<close>, the command \<^verbatim>\<open>KTCC_T<name>\<close> of the tool \<open>self\<close>.
\<close>

definition cmd_SelectTool :: "env \<Rightarrow> int \<Rightarrow> (string \<rightharpoonup> string) \<Rightarrow> state \<Rightarrow> outcome" where
  "cmd_SelectTool E self gcmd s =
     (case parse_restore_type gcmd ''R'' None of Inl e \<Rightarrow> (Some e, s)
      | Inr restore_mode0 \<Rightarrow>
        (case parse_restore_type gcmd ''RESTORE_POSITION_TYPE'' restore_mode0 of Inl e \<Rightarrow> (Some e, s)
         | Inr restore_mode \<Rightarrow>
           (let tool_is_remaped = tool_is_remaped s self
            in if tool_is_remaped > - 1
               then select_tool_actual E tool_is_remaped restore_mode s
               else select_tool_actual E self restore_mode s)))"

text \<open>The hooks a trace ran, in order.\<close>

fun hooks_of :: "event list \<Rightarrow> (hook \<times> int) list" where
  "hooks_of [] = []"
| "hooks_of (RunHook h n # evs) = (h, n) # hooks_of evs"
| "hooks_of (_ # evs) = hooks_of evs"

section \<open>Views of the state used in the properties\<close>

text \<open>The setting \<^verbatim>\<open>unload_virtual_at_dropoff\<close> given the same value on every tool.\<close>

definition with_unload_virtual_at_dropoff :: "bool \<Rightarrow> state \<Rightarrow> state" where
  "with_unload_virtual_at_dropoff b s =
     s\<lparr>tools := (\<lambda>n. map_option (\<lambda>T. T\<lparr>unload_virtual_at_dropoff := b\<rparr>) (tools s n))\<rparr>"

text \<open>
  The fields of a tool that the heater commands leave alone, and the relation between two
  states that differ by heater commands only.
\<close>

definition static_view :: "tool \<Rightarrow> bool \<times> int option \<times> string option \<times> int \<times> timer_ref option \<times> timer_ref option" where
  "static_view T = (is_virtual T, physical_parent_id T, extruder T, virtual_loaded T,
                    timer_idle_to_standby T, timer_idle_to_powerdown T)"

definition frame :: "state \<Rightarrow> state \<Rightarrow> bool" where
  "frame s s' =
     (tool_current s' = tool_current s \<and> hooks_of (trace s') = hooks_of (trace s)
      \<and> (\<forall>n. map_option static_view (tools s' n) = map_option static_view (tools s n))
      \<and> dom (timers s') = dom (timers s))"

text \<open>The heater and the two timers of a tool with an extruder are there.\<close>

definition heater_ready :: "env \<Rightarrow> state \<Rightarrow> tool \<Rightarrow> bool" where
  "heater_ready E s T =
     (case extruder T of None \<Rightarrow> True
      | Some x \<Rightarrow>
          heaters E x \<noteq> None
          \<and> (case timer_idle_to_standby T of None \<Rightarrow> False | Some k \<Rightarrow> timers s k \<noteq> None)
          \<and> (case timer_idle_to_powerdown T of None \<Rightarrow> False | Some k \<Rightarrow> timers s k \<noteq> None))"

section \<open>An example machine\<close>

text \<open>
  Tools 0 and 1 are virtual on the physical tool 2 and share its extruder and timers;
  tool 3 is a physical tool without parent and without extruder. Nothing is mounted, the
  machine is homed, the reactor's clock reads 100 and no hook fails.
\<close>

definition example_tool :: "bool \<Rightarrow> int option \<Rightarrow> string option \<Rightarrow> timer_ref option \<Rightarrow> timer_ref option \<Rightarrow> tool" where
  "example_tool v p x ts tp =
     \<lparr>is_virtual = v, physical_parent_id = p, extruder = x, fan = None,
      lazy_home_when_parking = 0, shaper_freq_x = 0, shaper_freq_y = 0,
      unload_virtual_at_dropoff = True, virtual_loaded = - 1, heater_state = 0,
      heater_active_temp = 200, heater_standby_temp = 150,
      idle_to_standby_time = 30, idle_to_powerdown_time = 600,
      timer_idle_to_standby = ts, timer_idle_to_powerdown = tp\<rparr>"

definition idle_timer :: timer where
  "idle_timer = \<lparr>last_virtual_tool_using_physical_timer = None, duration = 0,
                 inside_timer = False, repeat = False, counting_down = False, nextwake = None\<rparr>"

definition example_env :: env where
  "example_env = \<lparr>homed_axes = ''xyz'', monotonic = 100,
                  heaters = [''extruder'' \<mapsto> \<lparr>temperature = 20, target = 0\<rparr>],
                  hook_fails = (\<lambda>h n. False)\<rparr>"

definition example_tools :: "int \<rightharpoonup> tool" where
  "example_tools =
     [0 \<mapsto> example_tool True (Some 2) (Some ''extruder'') (Some (2, TIMER_TO_STANDBY)) (Some (2, TIMER_TO_SHUTDOWN)),
      1 \<mapsto> example_tool True (Some 2) (Some ''extruder'') (Some (2, TIMER_TO_STANDBY)) (Some (2, TIMER_TO_SHUTDOWN)),
      2 \<mapsto> example_tool False (Some 2) (Some ''extruder'') (Some (2, TIMER_TO_STANDBY)) (Some (2, TIMER_TO_SHUTDOWN)),
      3 \<mapsto> example_tool False (Some (- 1)) None None None]"

definition example_state :: state where
  "example_state =
     \<lparr>tools = example_tools,
      timers = [(2, TIMER_TO_STANDBY) \<mapsto> idle_timer, (2, TIMER_TO_SHUTDOWN) \<mapsto> idle_timer],
      tool_current = - 1, tool_map = Map.empty, saved_fan_speed = 0, trace = []\<rparr>"

text \<open>The example machine with the remap table 1 to 2, 2 to 3.\<close>

definition remap_state :: state where
  "remap_state = example_state\<lparr>tool_map := [1 \<mapsto> 2, 2 \<mapsto> 3]\<rparr>"

text \<open>
  A second machine: tool 1 is a physical tool, its own parent, with the lazy-home policy 1;
  tool 5 is virtual on it and is the current tool; tool 3 is a physical tool whose
  \<^verbatim>\<open>physical_parent\<close> is \<^verbatim>\<open>-1\<close>. None has an extruder.
\<close>

definition pen_tools :: "int \<rightharpoonup> tool" where
  "pen_tools =
     [1 \<mapsto> (example_tool False (Some 1) None None None)\<lparr>lazy_home_when_parking := 1, virtual_loaded := 5\<rparr>,
      5 \<mapsto> (example_tool True (Some 1) None None None)\<lparr>lazy_home_when_parking := 1\<rparr>,
      3 \<mapsto> example_tool False (Some (- 1)) None None None]"

definition pen_state :: state where
  "pen_state = \<lparr>tools = pen_tools, timers = Map.empty, tool_current = 5, tool_map = Map.empty,
                 saved_fan_speed = 0, trace = []\<rparr>"

text \<open>Environments: only Z homed; a heater at 20 degrees with target 30, and with target 210.\<close>

definition z_homed_env :: env where
  "z_homed_env = example_env\<lparr>homed_axes := ''z''\<rparr>"

definition warm_env :: env where
  "warm_env = example_env\<lparr>heaters := [''extruder'' \<mapsto> \<lparr>temperature = 20, target = 30\<rparr>]\<rparr>"

definition hot_env :: env where
  "hot_env = example_env\<lparr>heaters := [''extruder'' \<mapsto> \<lparr>temperature = 20, target = 210\<rparr>]\<rparr>"

text \<open>The example machine after tool 2, whose heater is off, was set to active.\<close>

definition activated_state :: state where
  "activated_state = snd (set_heater example_env 2 [Heater_state HEATER_STATE_ACTIVE] example_state)"

text \<open>
  The configuration of a tool, which no operation writes, and the relation between two
  states with the same tools and timers in the same configuration.
\<close>

definition config_view :: "tool \<Rightarrow> bool \<times> int option \<times> string option \<times> timer_ref option \<times> timer_ref option" where
  "config_view T = (is_virtual T, physical_parent_id T, extruder T,
                    timer_idle_to_standby T, timer_idle_to_powerdown T)"

definition config_frame :: "state \<Rightarrow> state \<Rightarrow> bool" where
  "config_frame s s' =
     ((\<forall>n. map_option config_view (tools s' n) = map_option config_view (tools s n))
      \<and> dom (timers s') = dom (timers s))"

section \<open>Properties\<close>

subsection \<open>Traces and frames\<close>

lemma hooks_of_append: "hooks_of (xs @ ys) = hooks_of xs @ hooks_of ys"
  by (induction xs rule: hooks_of.induct) simp_all

subsection \<open>Dropoff and the virtual tool\<close>

lemma Dropoff_tools: "tools (snd (Dropoff E self f s)) = tools s"
  by (simp add: Dropoff_def PrinterIsHomedForToolchange_def run_hook_def emit_def
      SaveCurrentTool_def Let_def split: option.splits)

lemma Dropoff_hooks:
  "hooks_of (trace (snd (Dropoff E self f s))) = hooks_of (trace s)
   \<or> hooks_of (trace (snd (Dropoff E self f s))) = hooks_of (trace s) @ [(DropoffHook, self)]"
  by (simp add: Dropoff_def PrinterIsHomedForToolchange_def run_hook_def emit_def
      SaveCurrentTool_def Let_def hooks_of_append split: option.splits)

lemma Dropoff_setting:
  "fst (Dropoff E self f (with_unload_virtual_at_dropoff b s)) = fst (Dropoff E self f s)
   \<and> trace (snd (Dropoff E self f (with_unload_virtual_at_dropoff b s))) = trace (snd (Dropoff E self f s))
   \<and> tool_current (snd (Dropoff E self f (with_unload_virtual_at_dropoff b s)))
       = tool_current (snd (Dropoff E self f s))"
  by (simp add: Dropoff_def PrinterIsHomedForToolchange_def run_hook_def emit_def
      SaveCurrentTool_def Let_def with_unload_virtual_at_dropoff_def split: option.splits)

text \<open>
  Claim C10. \<^verbatim>\<open>Dropoff(force_virtual_unload)\<close> does the same whatever the argument is:
  it leaves every tool object as it was, so no \<^verbatim>\<open>virtual_loaded\<close> field changes; the
  only hook it can add to the trace is the dropoff hook of the tool itself, never an
  unload of a virtual tool; and changing the setting \<^verbatim>\<open>unload_virtual_at_dropoff\<close>
  changes neither its result, nor what it sends out, nor the current tool.
\<close>

theorem Dropoff_never_unloads_virtual:
  "Dropoff E self force_virtual_unload s = Dropoff E self (\<not> force_virtual_unload) s
   \<and> tools (snd (Dropoff E self force_virtual_unload s)) = tools s
   \<and> (hooks_of (trace (snd (Dropoff E self force_virtual_unload s))) = hooks_of (trace s)
      \<or> hooks_of (trace (snd (Dropoff E self force_virtual_unload s)))
           = hooks_of (trace s) @ [(DropoffHook, self)])
   \<and> fst (Dropoff E self force_virtual_unload (with_unload_virtual_at_dropoff b s))
       = fst (Dropoff E self force_virtual_unload s)
   \<and> trace (snd (Dropoff E self force_virtual_unload (with_unload_virtual_at_dropoff b s)))
       = trace (snd (Dropoff E self force_virtual_unload s))
   \<and> tool_current (snd (Dropoff E self force_virtual_unload (with_unload_virtual_at_dropoff b s)))
       = tool_current (snd (Dropoff E self force_virtual_unload s))"
proof -
  have "Dropoff E self force_virtual_unload s = Dropoff E self (\<not> force_virtual_unload) s"
    by (simp add: Dropoff_def)
  then show ?thesis
    using Dropoff_tools[of E self force_virtual_unload s]
      Dropoff_hooks[of E self force_virtual_unload s]
      Dropoff_setting[of E self force_virtual_unload b s]
    by blast
qed

theorem Dropoff_never_unloads_virtual_witness:
  "Dropoff example_env 0 True (example_state\<lparr>tool_current := 0\<rparr>)
     = Dropoff example_env 0 False (example_state\<lparr>tool_current := 0\<rparr>)
   \<and> tools (snd (Dropoff example_env 0 True (example_state\<lparr>tool_current := 0\<rparr>))) = example_tools
   \<and> hooks_of (trace (snd (Dropoff example_env 0 True (example_state\<lparr>tool_current := 0\<rparr>))))
       = [(DropoffHook, 0)]"
proof -
  have hooks: "hooks_of (trace (snd (Dropoff example_env 0 True (example_state\<lparr>tool_current := 0\<rparr>))))
       = [(DropoffHook, 0)]"
    by (simp add: Dropoff_def PrinterIsHomedForToolchange_def run_hook_def emit_def
        SaveCurrentTool_def Let_def example_env_def example_state_def example_tools_def
        lower_def all_homed_def example_tool_def)
  have tools: "tools example_state = example_tools"
    by (simp add: example_state_def)
  show ?thesis
    using Dropoff_never_unloads_virtual[of example_env 0 True "example_state\<lparr>tool_current := 0\<rparr>" False]
      hooks tools
    by auto
qed

subsection \<open>Heater commands keep the frame\<close>

lemma frame_refl: "frame s s"
  by (simp add: frame_def)

lemma frame_trans: "frame s s' \<Longrightarrow> frame s' s'' \<Longrightarrow> frame s s''"
  by (simp add: frame_def)

lemma run_frame:
  assumes "\<And>f s. f \<in> set fs \<Longrightarrow> frame s (snd (f s))"
  shows "frame s (snd (run fs s))"
  using assms
proof (induction fs arbitrary: s)
  case Nil
  show ?case by (simp add: frame_refl)
next
  case (Cons f fs)
  have step: "frame s (snd (f s))" using Cons.prems by simp
  show ?case
  proof (cases "f s")
    case (Pair r s')
    show ?thesis
    proof (cases r)
      case None
      have "frame s' (snd (run fs s'))" using Cons.IH Cons.prems by simp
      with step Pair None show ?thesis by (auto intro: frame_trans)
    next
      case (Some e)
      with step Pair show ?thesis by simp
    qed
  qed
qed

lemma emit_frame: "hooks_of [ev] = [] \<Longrightarrow> frame s (snd (emit ev s))"
  by (simp add: emit_def frame_def hooks_of_append)

lemma set_timer_frame: "frame s (snd (set_timer E r d a s))"
  by (auto simp add: set_timer_def frame_def hooks_of_append Let_def
      split: option.splits)

lemma modify_heater_state_frame:
  "frame s (snd (modify_tool n (\<lambda>T. T\<lparr>heater_state := c\<rparr>) s))"
  by (simp add: modify_tool_def frame_def static_view_def
      split: option.splits)

lemma kwargs_loop_static:
  "kwargs_loop x kws (T, ct, evs) = (T1, ct1, evs1) \<Longrightarrow>
     static_view T1 = static_view T \<and> heater_state T1 = heater_state T \<and> hooks_of evs1 = hooks_of evs"
proof (induction kws arbitrary: T ct evs)
  case Nil
  then show ?case by simp
next
  case (Cons kw kws)
  show ?case
  proof (cases kw)
    case (Heater_state c)
    with Cons show ?thesis by simp
  next
    case (Heater_active_temp v)
    with Cons.prems Cons.IH[of "T\<lparr>heater_active_temp := v\<rparr>"] show ?thesis
      by (auto simp: static_view_def hooks_of_append split: if_splits)
  next
    case (Heater_standby_temp v)
    with Cons.prems Cons.IH[of "T\<lparr>heater_standby_temp := v\<rparr>"] show ?thesis
      by (auto simp: static_view_def hooks_of_append split: if_splits)
  next
    case (Idle_to_standby_time v)
    with Cons.prems Cons.IH[of "T\<lparr>idle_to_standby_time := v\<rparr>"] show ?thesis
      by (auto simp: static_view_def)
  next
    case (Idle_to_powerdown_time v)
    with Cons.prems Cons.IH[of "T\<lparr>idle_to_powerdown_time := v\<rparr>"] show ?thesis
      by (auto simp: static_view_def)
  qed
qed

lemma rearm_standby_frame: "frame s (snd (rearm_standby E self T ct s))"
  unfolding rearm_standby_def
  by (auto intro!: run_frame simp: frame_refl only_if_def set_timer_frame simp del: run.simps
      split: option.splits)

lemma change_state_frame: "frame s (snd (change_state E self T x h tr c s))"
  unfolding change_state_def
  by (auto intro!: run_frame emit_frame set_timer_frame modify_heater_state_frame
      simp: frame_refl simp del: run.simps)

lemma set_heater_frame: "frame s (snd (set_heater E self kwargs s))"
proof (cases "tools s self")
  case None
  then show ?thesis by (simp add: set_heater_def frame_refl)
next
  case (Some T)
  show ?thesis
  proof (cases "extruder T")
    case None
    with Some show ?thesis by (simp add: set_heater_def frame_refl)
  next
    case x: (Some x)
    show ?thesis
    proof (cases "heaters E x")
      case None
      with Some x show ?thesis by (simp add: set_heater_def frame_refl)
    next
      case h: (Some h)
      obtain T1 ct evs where loop: "kwargs_loop x kwargs (T, False, []) = (T1, ct, evs)"
        by (cases "kwargs_loop x kwargs (T, False, [])") auto
      from kwargs_loop_static[OF loop]
      have st: "static_view T1 = static_view T" and ev: "hooks_of evs = []" by simp_all
      define s1 where "s1 = s\<lparr>tools := (tools s)(self \<mapsto> T1), trace := trace s @ evs\<rparr>"
      have f1: "frame s s1"
        using Some st ev by (simp add: s1_def frame_def hooks_of_append)
      have f2: "frame s1 (snd (run [rearm_standby E self T1 ct,
                  (\<lambda>s. case chng_state_of kwargs of None \<Rightarrow> (None, s)
                        | Some c \<Rightarrow> change_state E self T1 x h
                            (if is_virtual T then physical_parent_id T else Some self) c s)] s1))"
        by (rule run_frame)
           (auto simp: rearm_standby_frame change_state_frame frame_refl simp del: run.simps
             split: option.splits)
      show ?thesis
        using frame_trans[OF f1 f2] Some x h loop
        by (simp add: set_heater_def s1_def Let_def del: run.simps)
    qed
  qed
qed

subsection \<open>Selection: the current tool, the unknown tool\<close>

lemma select_tool_actual_current:
  assumes "select_tool_actual E self rm s = (None, s')"
  shows "tool_current s' = self"
proof (cases "tools s self")
  case None
  with assms show ?thesis by (simp add: select_tool_actual_def)
next
  case (Some T)
  show ?thesis
  proof (cases "tool_current s = self")
    case True
    with assms Some show ?thesis by (simp add: select_tool_actual_def)
  next
    case False
    with assms Some show ?thesis
      by (auto simp: select_tool_actual_def Let_def SaveCurrentTool_def emit_def only_if_def
          split: if_splits option.splits prod.splits sum.splits)
  qed
qed

text \<open>
  Claim C4. When the tool a select command resolves to, through the remap table, is the
  tool that is already current, the selection returns at once and the state is the one
  it started from: the trace has no new hook and no heater command, and the current
  tool, every tool's \<^verbatim>\<open>virtual_loaded\<close> and heater state and every timer are unchanged.
  The command itself can only fail on an ill-formed restore parameter, before anything else.
\<close>

theorem select_current_tool_is_noop:
  assumes "tools s resolved = Some T" and "tool_current s = resolved"
    and "resolved = (if tool_is_remaped s self > - 1 then tool_is_remaped s self else self)"
  shows "select_tool_actual E resolved restore_mode s = (None, s)
         \<and> snd (cmd_SelectTool E self gcmd s) = s
         \<and> (fst (cmd_SelectTool E self gcmd s) = None
            \<or> fst (cmd_SelectTool E self gcmd s) = Some InvalidRestoreType)
         \<and> (gcmd ''R'' = None \<and> gcmd ''RESTORE_POSITION_TYPE'' = None
            \<longrightarrow> cmd_SelectTool E self gcmd s = (None, s))"
proof -
  have a: "select_tool_actual E resolved rm s = (None, s)" for rm
    using assms(1,2) by (simp add: select_tool_actual_def)
  show ?thesis
    using a assms(3)
    by (auto simp: cmd_SelectTool_def parse_restore_type_def Let_def split: sum.splits option.splits if_splits)
qed

text \<open>
  Claim C5. With a current tool id below \<^verbatim>\<open>TOOL_UNLOCKED\<close>, selecting a tool (ids
  are not negative) raises the command error of line 272, here \<open>InvalidState\<close>, and the
  state at that point is the state before the call: nothing ran and nothing was written.
\<close>

theorem select_with_unknown_tool_mounted_fails:
  assumes "tools s resolved = Some T" and "0 \<le> resolved" and "tool_current s < TOOL_UNLOCKED"
    and "resolved = (if tool_is_remaped s self > - 1 then tool_is_remaped s self else self)"
  shows "select_tool_actual E resolved restore_mode s = (Some InvalidState, s)
         \<and> snd (cmd_SelectTool E self gcmd s) = s
         \<and> (fst (cmd_SelectTool E self gcmd s) = Some InvalidState
            \<or> fst (cmd_SelectTool E self gcmd s) = Some InvalidRestoreType)
         \<and> (gcmd ''R'' = None \<and> gcmd ''RESTORE_POSITION_TYPE'' = None
            \<longrightarrow> cmd_SelectTool E self gcmd s = (Some InvalidState, s))"
proof -
  have a: "select_tool_actual E resolved rm s = (Some InvalidState, s)" for rm
    using assms(1,2,3) by (auto simp add: select_tool_actual_def TOOL_UNLOCKED_def)
  show ?thesis
    using a assms(4)
    by (auto simp: cmd_SelectTool_def parse_restore_type_def Let_def split: sum.splits option.splits if_splits)
qed

theorem select_current_tool_is_noop_witness:
  "select_tool_actual example_env 2 None (example_state\<lparr>tool_current := 2\<rparr>)
     = (None, example_state\<lparr>tool_current := 2\<rparr>)
   \<and> cmd_SelectTool example_env 2 Map.empty (example_state\<lparr>tool_current := 2\<rparr>)
     = (None, example_state\<lparr>tool_current := 2\<rparr>)"
proof -
  have "tools (example_state\<lparr>tool_current := 2\<rparr>) 2
          = Some (example_tool False (Some 2) (Some ''extruder'') (Some (2, TIMER_TO_STANDBY))
                    (Some (2, TIMER_TO_SHUTDOWN)))"
    by (simp add: example_state_def example_tools_def)
  moreover have "tool_current (example_state\<lparr>tool_current := 2\<rparr>) = 2" by simp
  moreover have "(2::int) = (if tool_is_remaped (example_state\<lparr>tool_current := 2\<rparr>) 2 > - 1
                      then tool_is_remaped (example_state\<lparr>tool_current := 2\<rparr>) 2 else 2)"
    by (simp add: tool_is_remaped_def example_state_def)
  ultimately show ?thesis
    using select_current_tool_is_noop[of "example_state\<lparr>tool_current := 2\<rparr>" 2 _ 2 example_env None Map.empty]
    by simp
qed

theorem select_with_unknown_tool_mounted_fails_witness:
  "select_tool_actual example_env 2 None (example_state\<lparr>tool_current := TOOL_UNKNOWN\<rparr>)
     = (Some InvalidState, example_state\<lparr>tool_current := TOOL_UNKNOWN\<rparr>)
   \<and> cmd_SelectTool example_env 2 Map.empty (example_state\<lparr>tool_current := TOOL_UNKNOWN\<rparr>)
     = (Some InvalidState, example_state\<lparr>tool_current := TOOL_UNKNOWN\<rparr>)"
proof -
  have "tools (example_state\<lparr>tool_current := TOOL_UNKNOWN\<rparr>) 2
          = Some (example_tool False (Some 2) (Some ''extruder'') (Some (2, TIMER_TO_STANDBY))
                    (Some (2, TIMER_TO_SHUTDOWN)))"
    by (simp add: example_state_def example_tools_def)
  moreover have "tool_current (example_state\<lparr>tool_current := TOOL_UNKNOWN\<rparr>) < TOOL_UNLOCKED"
    by (simp add: TOOL_UNKNOWN_def TOOL_UNLOCKED_def)
  moreover have "(2::int) = (if tool_is_remaped (example_state\<lparr>tool_current := TOOL_UNKNOWN\<rparr>) 2 > - 1
                      then tool_is_remaped (example_state\<lparr>tool_current := TOOL_UNKNOWN\<rparr>) 2 else 2)"
    by (simp add: tool_is_remaped_def example_state_def)
  ultimately show ?thesis
    using select_with_unknown_tool_mounted_fails[of "example_state\<lparr>tool_current := TOOL_UNKNOWN\<rparr>"
        2 _ 2 example_env None Map.empty]
    by simp
qed

subsection \<open>Pickup and homing\<close>

text \<open>
  Claim C8. \<^verbatim>\<open>Pickup\<close> asks \<^verbatim>\<open>PrinterIsHomedForToolchange()\<close> without the tool's
  policy, so the policy is 0: on a machine that is not fully homed it raises the command
  error of line 359, here \<open>NotHomed\<close>, right after the mount statistics start, for
  every tool and every value of its \<^verbatim>\<open>lazy_home_when_parking\<close>; no axis is homed.
\<close>

theorem Pickup_ignores_lazy_home_policy:
  assumes "tools s self = Some T" and "\<not> all_homed (lower (homed_axes E))"
  shows "Pickup E self s = (Some NotHomed, s\<lparr>trace := trace s @ [Stat ''track_mount_start'' self]\<rparr>)"
  using assms by (simp add: Pickup_def emit_def PrinterIsHomedForToolchange_def Let_def)

lemma lower_z: "lower ''z'' = ''z''"
  by code_simp

lemma upper_xy: "upper ''xy'' = ''XY''"
  by code_simp

theorem Pickup_ignores_lazy_home_policy_witness:
  "map_option lazy_home_when_parking (tools pen_state 1) = Some 1
   \<and> PrinterIsHomedForToolchange z_homed_env 1 (pen_state\<lparr>tool_current := - 1\<rparr>)
       = (True, pen_state\<lparr>tool_current := - 1, trace := [Home ''XY'']\<rparr>)
   \<and> Pickup z_homed_env 1 (pen_state\<lparr>tool_current := - 1\<rparr>)
       = (Some NotHomed, pen_state\<lparr>tool_current := - 1, trace := [Stat ''track_mount_start'' 1]\<rparr>)"
proof -
  have t: "tools (pen_state\<lparr>tool_current := - 1\<rparr>) 1
     = Some ((example_tool False (Some 1) None None None)\<lparr>lazy_home_when_parking := 1, virtual_loaded := 5\<rparr>)"
    by (simp add: pen_state_def pen_tools_def)
  have h: "\<not> all_homed (lower (homed_axes z_homed_env))"
    by (simp add: z_homed_env_def lower_z all_homed_def)
  have tr: "trace pen_state = []" by (simp add: pen_state_def)
  have p: "PrinterIsHomedForToolchange z_homed_env 1 (pen_state\<lparr>tool_current := - 1\<rparr>)
       = (True, pen_state\<lparr>tool_current := - 1, trace := [Home ''XY'']\<rparr>)"
    by (simp add: PrinterIsHomedForToolchange_def z_homed_env_def lower_z all_homed_def upper_xy tr)
  show ?thesis
    using Pickup_ignores_lazy_home_policy[OF t h] t p tr
    by (simp add: example_tool_def)
qed

subsection \<open>Waiting for a temperature\<close>

text \<open>
  Claim C9, as stated, fails: with a target of 30 and a temperature of 20 the operation
  returns at once with a tolerance of 1, without a wait and outside the tolerance.
\<close>

theorem Temperature_wait_returns_at_once_counterexample:
  "heaters warm_env ''extruder'' = Some \<lparr>temperature = 20, target = 30\<rparr>
   \<and> \<not> \<bar>(20::rat) - 30\<bar> \<le> 1
   \<and> Temperature_wait_with_tolerance warm_env (Some ''extruder'') 1 example_state = (None, example_state)"
  by (simp add: warm_env_def Temperature_wait_with_tolerance_def py_int_def)

text \<open>
  Claim C9, amended. For a heater whose target, truncated to an integer, is above 40 the
  operation sends one \<^verbatim>\<open>TEMPERATURE_WAIT\<close> for that heater, from the truncated target
  minus the tolerance to the truncated target plus the tolerance, and returns when that
  command does; for a target of 40 or less it returns at once and sends nothing.
\<close>

theorem Temperature_wait_above_40:
  assumes "heaters E h = Some st"
  shows "Temperature_wait_with_tolerance E (Some h) tolerance s =
           (if py_int (target st) > 40
            then (None, s\<lparr>trace := trace s @ [TemperatureWait h (py_int (target st) - tolerance)
                                                               (py_int (target st) + tolerance)]\<rparr>)
            else (None, s))"
  using assms by (simp add: Temperature_wait_with_tolerance_def emit_def Let_def)

theorem Temperature_wait_above_40_witness:
  "Temperature_wait_with_tolerance hot_env (Some ''extruder'') 2 example_state
     = (None, example_state\<lparr>trace := [TemperatureWait ''extruder'' 208 212]\<rparr>)"
proof -
  have h: "heaters hot_env ''extruder'' = Some \<lparr>temperature = 20, target = 210\<rparr>"
    by (simp add: hot_env_def)
  have "trace example_state = []" by (simp add: example_state_def)
  then show ?thesis
    using Temperature_wait_above_40[OF h, of 2 example_state]
    by (simp add: py_int_def)
qed

subsection \<open>Selecting a tool of another physical parent\<close>

text \<open>
  Claim C2 at the input where it fails. Tool 5, virtual on the physical tool 1, is
  current and tool 3, whose \<^verbatim>\<open>physical_parent\<close> is \<^verbatim>\<open>-1\<close>, is selected. The
  comparison of line 293 takes the parent of tool 3 for 1, so tool 5 is only unloaded
  and tool 3 is picked up with no dropoff in between.
\<close>

theorem select_parentless_tool_skips_dropoff:
  "fst (select_tool_actual example_env 3 None pen_state) = None
   \<and> hooks_of (trace (snd (select_tool_actual example_env 3 None pen_state)))
       = [(UnloadVirtualHook, 5), (PickupHook, 3)]
   \<and> tool_current (snd (select_tool_actual example_env 3 None pen_state)) = 3"
  by code_simp

theorem select_parentless_tool_skips_dropoff_witness:
  "map_option physical_parent_id (tools pen_state 5) = Some (Some 1)
   \<and> map_option physical_parent_id (tools pen_state 3) = Some (Some (- 1))
   \<and> tool_current pen_state = 5
   \<and> (DropoffHook, 5) \<notin> set (hooks_of (trace (snd (select_tool_actual example_env 3 None pen_state))))"
  using select_parentless_tool_skips_dropoff
  by (simp add: pen_state_def pen_tools_def example_tool_def)

subsection \<open>Heater: the transition to active\<close>

text \<open>
  Claim C3 on the code. A tool whose heater is off or in standby is set to active, outside
  any timer callback. The active temperature is sent to the heater once. Both timers get
  \<^verbatim>\<open>set_timer(0, ...)\<close>, which raises the duration to the minimum of half a second:
  each timer is registered with the reactor for the present time plus one half and counts
  down; it is not set to \<^verbatim>\<open>NEVER\<close>.
\<close>

theorem set_heater_active_arms_timers:
  assumes T: "tools s self = Some T" and x: "extruder T = Some x" and h: "heaters E x = Some h"
    and k1: "timer_idle_to_standby T = Some k1" "timers s k1 = Some tm1" "\<not> inside_timer tm1"
    and k2: "timer_idle_to_powerdown T = Some k2" "timers s k2 = Some tm2" "\<not> inside_timer tm2"
    and ne: "k1 \<noteq> k2"
    and st: "heater_state T = HEATER_STATE_OFF \<or> heater_state T = HEATER_STATE_STANDBY"
  shows "\<exists>s'. set_heater E self [Heater_state HEATER_STATE_ACTIVE] s = (None, s')
     \<and> trace s' = trace s @
          [UpdateTimer k1 (Some (monotonic E + 1 / 2)), UpdateTimer k2 (Some (monotonic E + 1 / 2)),
           SetTemp x (heater_active_temp T),
           HeaterStat ''track_standby_heater_end'' (if is_virtual T then physical_parent_id T else Some self),
           HeaterStat ''track_active_heater_start'' (if is_virtual T then physical_parent_id T else Some self)]
     \<and> map_option nextwake (timers s' k1) = Some (Some (monotonic E + 1 / 2))
     \<and> map_option counting_down (timers s' k1) = Some True
     \<and> map_option nextwake (timers s' k2) = Some (Some (monotonic E + 1 / 2))
     \<and> map_option counting_down (timers s' k2) = Some True
     \<and> map_option heater_state (tools s' self) = Some HEATER_STATE_ACTIVE"
  using assms
  by (auto simp add: set_heater_def rearm_standby_def change_state_def emit_def modify_tool_def
        set_timer_def min_duration_threshold_def Let_def map_upd_triv
        HEATER_STATE_ACTIVE_def HEATER_STATE_OFF_def HEATER_STATE_STANDBY_def)

theorem set_heater_active_arms_timers_witness:
  "map_option heater_state (tools example_state 2) = Some HEATER_STATE_OFF
   \<and> fst (set_heater example_env 2 [Heater_state HEATER_STATE_ACTIVE] example_state) = None
   \<and> map_option nextwake (timers activated_state (2, TIMER_TO_STANDBY)) = Some (Some (201 / 2))
   \<and> map_option nextwake (timers activated_state (2, TIMER_TO_SHUTDOWN)) = Some (Some (201 / 2))
   \<and> trace activated_state =
        [UpdateTimer (2, TIMER_TO_STANDBY) (Some (201 / 2)), UpdateTimer (2, TIMER_TO_SHUTDOWN) (Some (201 / 2)),
         SetTemp ''extruder'' 200, HeaterStat ''track_standby_heater_end'' (Some 2),
         HeaterStat ''track_active_heater_start'' (Some 2)]"
proof -
  have T: "tools example_state 2 = Some (example_tool False (Some 2) (Some ''extruder'')
             (Some (2, TIMER_TO_STANDBY)) (Some (2, TIMER_TO_SHUTDOWN)))"
    by (simp add: example_state_def example_tools_def)
  have k: "timers example_state (2, TIMER_TO_STANDBY) = Some idle_timer"
    "timers example_state (2, TIMER_TO_SHUTDOWN) = Some idle_timer"
    by (simp_all add: example_state_def)
  have tr: "trace example_state = []" "monotonic example_env = 100"
    by (simp_all add: example_state_def example_env_def)
  from set_heater_active_arms_timers[OF T, of "''extruder''" example_env
      "\<lparr>temperature = 20, target = 0\<rparr>" "(2, TIMER_TO_STANDBY)" idle_timer "(2, TIMER_TO_SHUTDOWN)" idle_timer]
  show ?thesis
    using T k tr
    by (auto simp: activated_state_def example_tool_def example_env_def idle_timer_def
        HEATER_STATE_OFF_def)
qed

text \<open>
  Half a second later the timers of the example fire: the standby timer sends the standby
  temperature to the heater, the power-down timer turns the tool's heater state to off.
\<close>

lemma timers_fire_after_activation:
  "fst (standby_tool_temp_timer_event example_env (2, TIMER_TO_STANDBY) (201 / 2) activated_state) = None
   \<and> trace (snd (standby_tool_temp_timer_event example_env (2, TIMER_TO_STANDBY) (201 / 2) activated_state))
       = trace activated_state @ [Stat ''track_standby_heater_start'' 2, SetTemp ''extruder'' 150,
                                  Stat ''track_active_heater_end'' 2]
   \<and> fst (standby_tool_temp_timer_event example_env (2, TIMER_TO_SHUTDOWN) (201 / 2) activated_state) = None
   \<and> map_option heater_state
        (tools (snd (standby_tool_temp_timer_event example_env (2, TIMER_TO_SHUTDOWN) (201 / 2) activated_state)) 2)
       = Some HEATER_STATE_OFF"
  by code_simp

subsection \<open>Selection between two virtual tools of one physical tool\<close>

lemma set_timer_ok:
  "timers s k = Some tm \<Longrightarrow> fst (set_timer E (Some k) d a s) = None"
  by (simp add: set_timer_def Let_def)

lemma set_timer_dom:
  "dom (timers (snd (set_timer E r d a s))) = dom (timers s)"
  using set_timer_frame[of s E r d a] by (simp add: frame_def)

lemma set_timer_tools:
  "tools (snd (set_timer E r d a s)) = tools s"
  by (simp add: set_timer_def Let_def split: option.splits)

lemma set_heater_active_ok:
  assumes T: "tools s B = Some T" and ready: "heater_ready E s T"
  shows "fst (set_heater E B [Heater_state HEATER_STATE_ACTIVE] s) = None"
proof (cases "extruder T")
  case None
  with T show ?thesis by (simp add: set_heater_def)
next
  case (Some x)
  from ready Some obtain h k1 k2 tm1 tm2 where
    h: "heaters E x = Some h" and k1: "timer_idle_to_standby T = Some k1" "timers s k1 = Some tm1"
    and k2: "timer_idle_to_powerdown T = Some k2" "timers s k2 = Some tm2"
    by (auto simp: heater_ready_def split: option.splits)
  obtain r1 s1 where s1: "set_timer E (Some k1) 0 B s = (r1, s1)" by (cases "set_timer E (Some k1) 0 B s")
  have r1: "r1 = None" using set_timer_ok[OF k1(2), of E 0 B] s1 by simp
  have "dom (timers s1) = dom (timers s)" using set_timer_dom[of E "Some k1" 0 B s] s1 by simp
  then obtain tm2' where tm2': "timers s1 k2 = Some tm2'" using k2(2) by (metis domD domI)
  obtain r2 s2 where s2: "set_timer E (Some k2) 0 B s1 = (r2, s2)" by (cases "set_timer E (Some k2) 0 B s1")
  have r2: "r2 = None" using set_timer_ok[OF tm2', of E 0 B] s2 by simp
  have t1: "tools s1 = tools s" using set_timer_tools[of E "Some k1" 0 B s] s1 by simp
  have t2: "tools s2 = tools s1" using set_timer_tools[of E "Some k2" 0 B s1] s2 by simp
  show ?thesis
  proof (cases "heater_state T = HEATER_STATE_ACTIVE")
    case True
    with T Some h show ?thesis
      by (simp add: set_heater_def rearm_standby_def change_state_def emit_def
          HEATER_STATE_ACTIVE_def HEATER_STATE_STANDBY_def)
  next
    case False
    with T Some h k1 k2 s1 r1 s2 r2 t1 t2 show ?thesis
      by (simp add: set_heater_def rearm_standby_def change_state_def emit_def modify_tool_def
          map_upd_triv Let_def HEATER_STATE_ACTIVE_def HEATER_STATE_OFF_def HEATER_STATE_STANDBY_def)
  qed
qed


lemma UnloadVirtual_ok:
  assumes "tools s A = Some TA" "is_virtual TA" "physical_parent_id TA = Some P"
    "tools s P = Some TP" "\<not> hook_fails E UnloadVirtualHook A"
  shows "UnloadVirtual E A s =
     (None, s\<lparr>tools := (tools s)(P \<mapsto> TP\<lparr>virtual_loaded := - 1\<rparr>), tool_current := A,
              trace := trace s @ [Stat ''track_unmount_start'' A, RunHook UnloadVirtualHook A,
                                  SaveVariable A, Stat ''track_unmount_end'' A]\<rparr>)"
  using assms
  by (simp add: UnloadVirtual_def run_virtual_hook_def run_hook_def emit_def set_virtual_loaded_def
      SaveCurrentTool_def)

lemma LoadVirtual_ok:
  assumes "tools s B = Some TB" "is_virtual TB" "physical_parent_id TB = Some P"
    "tools s P = Some TP" "\<not> hook_fails E LoadVirtualHook B"
  shows "LoadVirtual E B s =
     (None, s\<lparr>tools := (tools s)(P \<mapsto> TP\<lparr>virtual_loaded := B\<rparr>), tool_current := B,
              trace := trace s @ [Stat ''track_mount_start'' B, RunHook LoadVirtualHook B,
                                  SaveVariable B, Stat ''track_mount_end'' B]\<rparr>)"
  using assms
  by (simp add: LoadVirtual_def run_virtual_hook_def run_hook_def emit_def set_virtual_loaded_def
      SaveCurrentTool_def)

lemma frame_tool:
  assumes "frame s s'" "tools s n = Some T"
  obtains T' where "tools s' n = Some T'" "is_virtual T' = is_virtual T"
    "physical_parent_id T' = physical_parent_id T" "extruder T' = extruder T"
proof -
  from assms(1) have "map_option static_view (tools s' n) = map_option static_view (tools s n)"
    by (simp add: frame_def)
  with assms(2) obtain T' where "tools s' n = Some T'" "static_view T' = static_view T"
    by (cases "tools s' n") auto
  then show ?thesis using that by (simp add: static_view_def)
qed

lemma heater_ready_frame:
  assumes "frame s s'" "heater_ready E s T"
  shows "heater_ready E s' T"
proof -
  from assms(1) have "dom (timers s') = dom (timers s)" by (simp add: frame_def)
  then have "timers s' k \<noteq> None \<longleftrightarrow> timers s k \<noteq> None" for k
    by (metis domIff)
  with assms(2) show ?thesis
    by (auto simp add: heater_ready_def split: option.splits)
qed

lemma select_same_parent:
  assumes cur: "tool_current s = A" "0 \<le> A" "A \<noteq> B"
    and TA: "tools s A = Some TA" "is_virtual TA" "physical_parent_id TA = Some P"
    and TB: "tools s B = Some TB" "is_virtual TB" "physical_parent_id TB = Some P"
    and P: "0 \<le> P" "tools s P = Some TP"
    and hooks: "\<not> hook_fails E UnloadVirtualHook A" "\<not> hook_fails E LoadVirtualHook B"
    and heat: "heater_ready E s TB"
  shows "\<exists>s'. select_tool_actual E B None s = (None, s')
           \<and> hooks_of (trace s') = hooks_of (trace s) @ [(UnloadVirtualHook, A), (LoadVirtualHook, B)]
           \<and> map_option virtual_loaded (tools s' P) = Some B
           \<and> tool_current s' = B"
proof -
  define s1 where "s1 = s\<lparr>trace := trace s @ [Stat ''toolmounts_started'' B]\<rparr>"
  have f1: "frame s s1"
    by (simp add: s1_def frame_def hooks_of_append)
  obtain r2 s2 where s2: "only_if (extruder TB \<noteq> None) (set_heater E B [Heater_state HEATER_STATE_ACTIVE]) s1 = (r2, s2)"
    by (cases "only_if (extruder TB \<noteq> None) (set_heater E B [Heater_state HEATER_STATE_ACTIVE]) s1")
  have TB1: "tools s1 B = Some TB" using TB(1) by (simp add: s1_def)
  have r2: "r2 = None"
    using s2 set_heater_active_ok[OF TB1 heater_ready_frame[OF f1 heat]]
    by (auto simp: only_if_def split: if_splits)
  have f12: "frame s1 s2"
    using s2 set_heater_frame[of s1 E B "[Heater_state HEATER_STATE_ACTIVE]"]
    by (auto simp: only_if_def frame_refl split: if_splits)
  have f2: "frame s s2" using frame_trans[OF f1 f12] .
  have cur2: "tool_current s2 = A" and hk2: "hooks_of (trace s2) = hooks_of (trace s)"
    using f2 cur(1) by (simp_all add: frame_def)
  obtain TA2 where TA2: "tools s2 A = Some TA2" "is_virtual TA2" "physical_parent_id TA2 = Some P"
    using frame_tool[OF f2 TA(1)] TA(2,3) by metis
  obtain TB2 where TB2: "tools s2 B = Some TB2" "is_virtual TB2" "physical_parent_id TB2 = Some P"
    using frame_tool[OF f2 TB(1)] TB(2,3) by metis
  obtain TP2 where TP2: "tools s2 P = Some TP2"
    using frame_tool[OF f2 P(2)] by metis
  define s2' where "s2' = s2\<lparr>trace := trace s2 @ [Stat ''track_selected_tool_end'' A]\<rparr>"
  define s3 where "s3 = s2'\<lparr>tools := (tools s2')(P \<mapsto> TP2\<lparr>virtual_loaded := - 1\<rparr>), tool_current := A,
              trace := trace s2' @ [Stat ''track_unmount_start'' A, RunHook UnloadVirtualHook A,
                                  SaveVariable A, Stat ''track_unmount_end'' A]\<rparr>"
  have u: "UnloadVirtual E A s2' = (None, s3)"
    unfolding s3_def
    by (rule UnloadVirtual_ok[where TA = TA2]) (use TA2 TP2 hooks in \<open>simp_all add: s2'_def\<close>)
  have pc: "parent_for_comparison P = P"
    using P(1) by (simp add: parent_for_comparison_def TOOL_UNLOCKED_def)
  have TA2': "tools s2' A = Some TA2"
    using TA2(1) by (simp add: s2'_def)
  have um: "unmount_current E TB A s2 = (Inr A, s3)"
    using cur(2) TA2' TA2(3) TB(3) pc u
    by (simp add: unmount_current_def TOOL_UNLOCKED_def s2'_def[symmetric] Let_def)
  obtain TA3 where TA3: "tools s3 A = Some TA3" "physical_parent_id TA3 = Some P"
    using TA2 TP2 by (cases "A = P") (auto simp: s3_def s2'_def)
  obtain TB3 where TB3: "tools s3 B = Some TB3" "is_virtual TB3" "physical_parent_id TB3 = Some P"
    using TB2 TP2 by (cases "B = P") (auto simp: s3_def s2'_def)
  have TP3: "tools s3 P = Some (TP2\<lparr>virtual_loaded := - 1\<rparr>)"
    by (simp add: s3_def)
  define s4 where "s4 = s3\<lparr>tools := (tools s3)(P \<mapsto> TP2\<lparr>virtual_loaded := B\<rparr>), tool_current := B,
              trace := trace s3 @ [Stat ''track_mount_start'' B, RunHook LoadVirtualHook B,
                                  SaveVariable B, Stat ''track_mount_end'' B]\<rparr>"
  have l: "LoadVirtual E B s3 = (None, s4)"
    using LoadVirtual_ok[OF TB3 TP3 hooks(2)] by (simp add: s4_def)
  have m: "mount_selected E B TB A s3 = (None, s4)"
    using TB(2,3) cur(2) TA3 P(1) l
    by (simp add: mount_selected_def TOOL_UNLOCKED_def)
  define s5 where "s5 = s4\<lparr>tool_current := B,
      trace := trace s4 @ [SaveVariable B, Stat ''track_selected_tool_start'' B]\<rparr>"
  have sel: "select_tool_actual E B None s = (None, s5)"
    using TB(1) cur s2 r2 um m
    by (simp add: select_tool_actual_def TOOL_UNLOCKED_def emit_def s1_def[symmetric]
        SaveCurrentTool_def s5_def only_if_def)
  have "hooks_of (trace s5) = hooks_of (trace s) @ [(UnloadVirtualHook, A), (LoadVirtualHook, B)]"
    using hk2 by (simp add: s5_def s4_def s3_def s2'_def hooks_of_append)
  moreover have "map_option virtual_loaded (tools s5 P) = Some B"
    by (simp add: s5_def s4_def)
  moreover have "tool_current s5 = B" by (simp add: s5_def)
  ultimately show ?thesis using sel by blast
qed

lemma config_frame_refl: "config_frame s s"
  by (simp add: config_frame_def)

lemma config_frame_trans: "config_frame s s' \<Longrightarrow> config_frame s' s'' \<Longrightarrow> config_frame s s''"
  by (simp add: config_frame_def)

lemma frame_config_frame: "frame s s' \<Longrightarrow> config_frame s s'"
proof -
  assume f: "frame s s'"
  have "map_option config_view (tools s' n) = map_option config_view (tools s n)" for n
  proof -
    from f have "map_option static_view (tools s' n) = map_option static_view (tools s n)"
      by (simp add: frame_def)
    then show ?thesis
      by (cases "tools s' n"; cases "tools s n") (auto simp: static_view_def config_view_def)
  qed
  with f show ?thesis by (simp add: config_frame_def frame_def)
qed

lemma run_config_frame:
  assumes "\<And>f s. f \<in> set fs \<Longrightarrow> config_frame s (snd (f s))"
  shows "config_frame s (snd (run fs s))"
  using assms
proof (induction fs arbitrary: s)
  case Nil
  show ?case by (simp add: config_frame_refl)
next
  case (Cons f fs)
  have step: "config_frame s (snd (f s))" using Cons.prems by simp
  show ?case
  proof (cases "f s")
    case (Pair r s')
    show ?thesis
    proof (cases r)
      case None
      have "config_frame s' (snd (run fs s'))" using Cons.IH Cons.prems by simp
      with step Pair None show ?thesis by (auto intro: config_frame_trans)
    next
      case (Some e)
      with step Pair show ?thesis by simp
    qed
  qed
qed

lemma emit_config_frame: "config_frame s (snd (emit ev s))"
  by (simp add: emit_def config_frame_def)

lemma SaveCurrentTool_config_frame: "config_frame s (snd (SaveCurrentTool t s))"
  by (simp add: SaveCurrentTool_def emit_def config_frame_def)

lemma run_hook_config_frame: "config_frame s (snd (run_hook E h n s))"
  by (simp add: run_hook_def config_frame_def Let_def)

lemma run_virtual_hook_config_frame: "config_frame s (snd (run_virtual_hook E h n T s))"
  by (simp add: run_virtual_hook_def run_hook_config_frame config_frame_refl)

lemma set_virtual_loaded_config_frame: "config_frame s (snd (set_virtual_loaded pp v s))"
  by (auto simp: set_virtual_loaded_def config_frame_def config_view_def split: option.splits)

lemma set_heater_config_frame: "config_frame s (snd (set_heater E n kw s))"
  by (rule frame_config_frame[OF set_heater_frame])

lemma homed_config_frame: "config_frame s (snd (PrinterIsHomedForToolchange E lazy s))"
  by (simp add: PrinterIsHomedForToolchange_def config_frame_def Let_def)

lemma Temperature_wait_config_frame:
  "config_frame s (snd (Temperature_wait_with_tolerance E h tol s))"
  by (simp add: Temperature_wait_with_tolerance_def emit_def config_frame_def Let_def
      split: option.splits)

lemma Pickup_config_frame: "config_frame s (snd (Pickup E self s))"
proof (cases "tools s self")
  case None
  then show ?thesis by (simp add: Pickup_def config_frame_refl)
next
  case (Some T)
  have "config_frame s (snd (run [emit (Stat ''track_mount_start'' self),
             (\<lambda>s. case PrinterIsHomedForToolchange E 0 s of
                     (homed, s') \<Rightarrow> if \<not> homed then (Some NotHomed, s') else (None, s')),
             (\<lambda>s. case extruder T of None \<Rightarrow> (None, s) | Some x \<Rightarrow> emit (ActivateExtruder x) s),
             emit Dwell,
             run_hook E PickupHook self,
             (\<lambda>s. case fan T of None \<Rightarrow> (None, s) | Some f \<Rightarrow> emit (SetFanSpeed f (saved_fan_speed s)) s),
             only_if (shaper_freq_x T \<noteq> 0 \<or> shaper_freq_y T \<noteq> 0)
               (emit (SetInputShaper self (shaper_freq_x T) (shaper_freq_y T))),
             SaveCurrentTool self,
             emit (Stat ''track_mount_end'' self)] s))"
  proof (rule run_config_frame)
    fix f s
    assume "f \<in> set [emit (Stat ''track_mount_start'' self),
             (\<lambda>s. case PrinterIsHomedForToolchange E 0 s of
                     (homed, s') \<Rightarrow> if \<not> homed then (Some NotHomed, s') else (None, s')),
             (\<lambda>s. case extruder T of None \<Rightarrow> (None, s) | Some x \<Rightarrow> emit (ActivateExtruder x) s),
             emit Dwell,
             run_hook E PickupHook self,
             (\<lambda>s. case fan T of None \<Rightarrow> (None, s) | Some f \<Rightarrow> emit (SetFanSpeed f (saved_fan_speed s)) s),
             only_if (shaper_freq_x T \<noteq> 0 \<or> shaper_freq_y T \<noteq> 0)
               (emit (SetInputShaper self (shaper_freq_x T) (shaper_freq_y T))),
             SaveCurrentTool self,
             emit (Stat ''track_mount_end'' self)]"
    then show "config_frame s (snd (f s))"
      using homed_config_frame[of s E 0]
      by (auto simp: emit_config_frame run_hook_config_frame SaveCurrentTool_config_frame
          config_frame_refl only_if_def split: option.splits prod.splits)
  qed
  with Some show ?thesis by (simp add: Pickup_def del: run.simps)
qed

lemma Dropoff_config_frame: "config_frame s (snd (Dropoff E self f s))"
  by (simp add: Dropoff_def PrinterIsHomedForToolchange_def run_hook_def emit_def
      SaveCurrentTool_def Let_def config_frame_def split: option.splits)

lemma LoadVirtual_config_frame: "config_frame s (snd (LoadVirtual E self s))"
  unfolding LoadVirtual_def
  by (auto intro!: run_config_frame simp: config_frame_refl emit_config_frame
      run_virtual_hook_config_frame set_virtual_loaded_config_frame SaveCurrentTool_config_frame
      simp del: run.simps split: option.splits)

lemma UnloadVirtual_config_frame: "config_frame s (snd (UnloadVirtual E self s))"
  unfolding UnloadVirtual_def
  by (auto intro!: run_config_frame simp: config_frame_refl emit_config_frame
      run_virtual_hook_config_frame set_virtual_loaded_config_frame SaveCurrentTool_config_frame
      simp del: run.simps split: option.splits)

lemma unload_resident_config_frame: "config_frame s (snd (unload_resident E self T v s))"
  unfolding unload_resident_def
  by (auto intro!: run_config_frame simp: config_frame_refl only_if_def set_heater_config_frame
      Temperature_wait_config_frame UnloadVirtual_config_frame
      simp del: run.simps split: option.splits)

lemma mount_selected_config_frame: "config_frame s (snd (mount_selected E self T c s))"
  unfolding mount_selected_def
  by (auto intro!: run_config_frame simp: config_frame_refl only_if_def Pickup_config_frame
      LoadVirtual_config_frame unload_resident_config_frame Let_def
      simp del: run.simps split: option.splits)

lemma unmount_current_config_frame: "config_frame s (snd (unmount_current E T c s))"
proof -
  define s1 where "s1 = s\<lparr>trace := trace s @ [Stat ''track_selected_tool_end'' c]\<rparr>"
  have e: "config_frame s s1"
    by (simp add: config_frame_def s1_def)
  have "snd (unmount_current E T c s) = s \<or> snd (unmount_current E T c s) = s1
        \<or> snd (unmount_current E T c s) = snd (Dropoff E c False s1)
        \<or> snd (unmount_current E T c s) = snd (UnloadVirtual E c s1)"
    by (auto simp: unmount_current_def Let_def s1_def[symmetric] split: option.splits prod.splits)
  then show ?thesis
    using e config_frame_trans[OF e Dropoff_config_frame[of s1 E c False]]
      config_frame_trans[OF e UnloadVirtual_config_frame[of s1 E c]]
    by (auto simp: config_frame_refl)
qed

lemma select_tool_actual_config_frame:
  "config_frame s (snd (select_tool_actual E self rm s))"
proof (cases "tools s self")
  case None
  then show ?thesis by (simp add: select_tool_actual_def config_frame_refl)
next
  case (Some T)
  have body: "config_frame s (snd (run [emit (Stat ''toolmounts_started'' self),
                      only_if (extruder T \<noteq> None) (set_heater E self [Heater_state HEATER_STATE_ACTIVE]),
                      only_if (rm \<noteq> None) (\<lambda>s. (Some AttributeError, s)),
                      (\<lambda>s. case unmount_current E T (tool_current s0) s of
                              (Inl e, s') \<Rightarrow> (Some e, s')
                            | (Inr current_tool_id', s') \<Rightarrow> mount_selected E self T current_tool_id' s'),
                      SaveCurrentTool self,
                      emit (Stat ''track_selected_tool_start'' self)] s))" for s0
  proof (rule run_config_frame)
    fix f s
    assume f: "f \<in> set [emit (Stat ''toolmounts_started'' self),
                      only_if (extruder T \<noteq> None) (set_heater E self [Heater_state HEATER_STATE_ACTIVE]),
                      only_if (rm \<noteq> None) (\<lambda>s. (Some AttributeError, s)),
                      (\<lambda>s. case unmount_current E T (tool_current s0) s of
                              (Inl e, s') \<Rightarrow> (Some e, s')
                            | (Inr current_tool_id', s') \<Rightarrow> mount_selected E self T current_tool_id' s'),
                      SaveCurrentTool self,
                      emit (Stat ''track_selected_tool_start'' self)]"
    have um: "config_frame s (snd (case unmount_current E T (tool_current s0) s of
                              (Inl e, s') \<Rightarrow> (Some e, s')
                            | (Inr current_tool_id', s') \<Rightarrow> mount_selected E self T current_tool_id' s'))"
    proof (cases "unmount_current E T (tool_current s0) s")
      case (Pair r s')
      have a: "config_frame s s'"
        using unmount_current_config_frame[of s E T "tool_current s0"] Pair by simp
      show ?thesis
      proof (cases r)
        case (Inl e)
        with Pair a show ?thesis by simp
      next
        case (Inr c')
        with Pair a mount_selected_config_frame[of s' E self T c'] show ?thesis
          by (auto intro: config_frame_trans)
      qed
    qed
    from f show "config_frame s (snd (f s))"
      using um
      by (auto simp: emit_config_frame SaveCurrentTool_config_frame set_heater_config_frame
          config_frame_refl only_if_def)
  qed
  show ?thesis
    using Some body[of s]
    by (simp add: select_tool_actual_def Let_def config_frame_refl del: run.simps)
qed

lemma config_frame_tool:
  assumes "config_frame s s'" "tools s n = Some T"
  obtains T' where "tools s' n = Some T'" "config_view T' = config_view T"
proof -
  from assms(1) have "map_option config_view (tools s' n) = map_option config_view (tools s n)"
    by (simp add: config_frame_def)
  with assms(2) show ?thesis using that by (cases "tools s' n") auto
qed

lemma heater_ready_config_frame:
  assumes "config_frame s s'" "config_view T' = config_view T" "heater_ready E s T"
  shows "heater_ready E s' T'"
proof -
  from assms(1) have "dom (timers s') = dom (timers s)" by (simp add: config_frame_def)
  then have "timers s' k \<noteq> None \<longleftrightarrow> timers s k \<noteq> None" for k
    by (metis domIff)
  with assms(2,3) show ?thesis
    by (auto simp add: heater_ready_def config_view_def split: option.splits)
qed

text \<open>
  Claim C1. Tool \<open>A\<close> has been selected and the selection returned; \<open>A\<close> and \<open>B\<close>
  are two virtual tools on the same physical tool \<open>P\<close>, the two virtual hooks involved
  do not fail and the heater and timers of \<open>B\<close>, if it has an extruder, are there. Then
  selecting \<open>B\<close> (without restore mode) returns, and the hooks it runs are the unload
  of \<open>A\<close> followed by the load of \<open>B\<close>, nothing else: no pickup and no dropoff.
  Afterwards \<open>P\<close> has \<open>B\<close> as its loaded virtual tool and \<open>B\<close> is the current tool.
\<close>

theorem select_virtual_sibling:
  assumes first: "select_tool_actual E A restore_mode s0 = (None, s)"
    and ids: "0 \<le> A" "A \<noteq> B" "0 \<le> P"
    and TA: "tools s0 A = Some TA" "is_virtual TA" "physical_parent_id TA = Some P"
    and TB: "tools s0 B = Some TB" "is_virtual TB" "physical_parent_id TB = Some P"
    and P: "tools s0 P = Some TP"
    and hooks: "\<not> hook_fails E UnloadVirtualHook A" "\<not> hook_fails E LoadVirtualHook B"
    and heat: "heater_ready E s0 TB"
  shows "\<exists>s'. select_tool_actual E B None s = (None, s')
           \<and> hooks_of (trace s') = hooks_of (trace s) @ [(UnloadVirtualHook, A), (LoadVirtualHook, B)]
           \<and> map_option virtual_loaded (tools s' P) = Some B
           \<and> tool_current s' = B"
proof -
  have cf: "config_frame s0 s"
    using select_tool_actual_config_frame[of s0 E A restore_mode] first by simp
  have cur: "tool_current s = A"
    using select_tool_actual_current[OF first] .
  obtain TA' where TA': "tools s A = Some TA'" "config_view TA' = config_view TA"
    using config_frame_tool[OF cf TA(1)] by blast
  obtain TB' where TB': "tools s B = Some TB'" "config_view TB' = config_view TB"
    using config_frame_tool[OF cf TB(1)] by blast
  obtain TP' where TP': "tools s P = Some TP'"
    using config_frame_tool[OF cf P] by blast
  have a: "is_virtual TA'" "physical_parent_id TA' = Some P"
    using TA' TA(2,3) by (simp_all add: config_view_def)
  have b: "is_virtual TB'" "physical_parent_id TB' = Some P"
    using TB' TB(2,3) by (simp_all add: config_view_def)
  have h: "heater_ready E s TB'"
    using heater_ready_config_frame[OF cf TB'(2) heat] .
  show ?thesis
    by (rule select_same_parent[OF cur ids(1,2) TA'(1) a TB'(1) b ids(3) TP' hooks h])
qed

lemma example_first_select:
  "fst (select_tool_actual example_env 0 None example_state) = None
   \<and> hooks_of (trace (snd (select_tool_actual example_env 0 None example_state)))
       = [(PickupHook, 0), (LoadVirtualHook, 0)]"
  by code_simp

theorem select_virtual_sibling_witness:
  "fst (select_tool_actual example_env 1 None (snd (select_tool_actual example_env 0 None example_state))) = None
   \<and> hooks_of (trace (snd (select_tool_actual example_env 1 None
                         (snd (select_tool_actual example_env 0 None example_state)))))
       = [(PickupHook, 0), (LoadVirtualHook, 0), (UnloadVirtualHook, 0), (LoadVirtualHook, 1)]
   \<and> map_option virtual_loaded (tools (snd (select_tool_actual example_env 1 None
                         (snd (select_tool_actual example_env 0 None example_state)))) 2) = Some 1
   \<and> tool_current (snd (select_tool_actual example_env 1 None
                         (snd (select_tool_actual example_env 0 None example_state)))) = 1"
proof -
  obtain s where first: "select_tool_actual example_env 0 None example_state = (None, s)"
    using example_first_select
    by (cases "select_tool_actual example_env 0 None example_state") auto
  have hk: "hooks_of (trace s) = [(PickupHook, 0), (LoadVirtualHook, 0)]"
    using example_first_select first by simp
  have T0: "tools example_state 0 = Some (example_tool True (Some 2) (Some ''extruder'')
              (Some (2, TIMER_TO_STANDBY)) (Some (2, TIMER_TO_SHUTDOWN)))"
    and T1: "tools example_state 1 = Some (example_tool True (Some 2) (Some ''extruder'')
              (Some (2, TIMER_TO_STANDBY)) (Some (2, TIMER_TO_SHUTDOWN)))"
    and T2: "tools example_state 2 = Some (example_tool False (Some 2) (Some ''extruder'')
              (Some (2, TIMER_TO_STANDBY)) (Some (2, TIMER_TO_SHUTDOWN)))"
    by (simp_all add: example_state_def example_tools_def)
  have v: "is_virtual (example_tool True (Some 2) (Some ''extruder'')
              (Some (2, TIMER_TO_STANDBY)) (Some (2, TIMER_TO_SHUTDOWN)))"
    and p: "physical_parent_id (example_tool True (Some 2) (Some ''extruder'')
              (Some (2, TIMER_TO_STANDBY)) (Some (2, TIMER_TO_SHUTDOWN))) = Some 2"
    by (simp_all add: example_tool_def)
  have hf: "\<not> hook_fails example_env UnloadVirtualHook 0" "\<not> hook_fails example_env LoadVirtualHook 1"
    by (simp_all add: example_env_def)
  have hr: "heater_ready example_env example_state (example_tool True (Some 2) (Some ''extruder'')
              (Some (2, TIMER_TO_STANDBY)) (Some (2, TIMER_TO_SHUTDOWN)))"
    by (simp add: heater_ready_def example_tool_def example_env_def example_state_def)
  from select_virtual_sibling[OF first _ _ _ T0 v p T1 v p T2 hf hr]
  obtain s' where "select_tool_actual example_env 1 None s = (None, s')"
    "hooks_of (trace s') = hooks_of (trace s) @ [(UnloadVirtualHook, 0), (LoadVirtualHook, 1)]"
    "map_option virtual_loaded (tools s' 2) = Some 1" "tool_current s' = 1"
    by auto
  then show ?thesis
    using first hk by simp
qed

subsection \<open>Selection through the remap table\<close>

text \<open>
  No step of a selection reads the remap table: run on a state with another table, every
  step returns the same result and the same state, up to that table.
\<close>

lemma run_tool_map:
  assumes "\<And>f s. f \<in> set fs \<Longrightarrow> f (s\<lparr>tool_map := m\<rparr>) = (fst (f s), (snd (f s))\<lparr>tool_map := m\<rparr>)"
  shows "run fs (s\<lparr>tool_map := m\<rparr>) = (fst (run fs s), (snd (run fs s))\<lparr>tool_map := m\<rparr>)"
  using assms
proof (induction fs arbitrary: s)
  case Nil
  show ?case by simp
next
  case (Cons f fs)
  have f: "f (s\<lparr>tool_map := m\<rparr>) = (fst (f s), (snd (f s))\<lparr>tool_map := m\<rparr>)"
    using Cons.prems by simp
  show ?case
  proof (cases "f s")
    case (Pair r s')
    show ?thesis
    proof (cases r)
      case None
      have "run fs (s'\<lparr>tool_map := m\<rparr>) = (fst (run fs s'), (snd (run fs s'))\<lparr>tool_map := m\<rparr>)"
        using Cons.IH Cons.prems by simp
      with f Pair None show ?thesis by simp
    next
      case (Some e)
      with f Pair show ?thesis by simp
    qed
  qed
qed

lemma emit_tool_map:
  "emit ev (s\<lparr>tool_map := m\<rparr>) = (fst (emit ev s), (snd (emit ev s))\<lparr>tool_map := m\<rparr>)"
  by (simp add: emit_def)

lemma SaveCurrentTool_tool_map:
  "SaveCurrentTool t (s\<lparr>tool_map := m\<rparr>) = (fst (SaveCurrentTool t s), (snd (SaveCurrentTool t s))\<lparr>tool_map := m\<rparr>)"
  by (simp add: SaveCurrentTool_def emit_def)

lemma run_hook_tool_map:
  "run_hook E h n (s\<lparr>tool_map := m\<rparr>) = (fst (run_hook E h n s), (snd (run_hook E h n s))\<lparr>tool_map := m\<rparr>)"
  by (simp add: run_hook_def Let_def)

lemma run_virtual_hook_tool_map:
  "run_virtual_hook E h n T (s\<lparr>tool_map := m\<rparr>)
     = (fst (run_virtual_hook E h n T s), (snd (run_virtual_hook E h n T s))\<lparr>tool_map := m\<rparr>)"
  by (simp add: run_virtual_hook_def run_hook_tool_map)

lemma set_virtual_loaded_tool_map:
  "set_virtual_loaded pp v (s\<lparr>tool_map := m\<rparr>)
     = (fst (set_virtual_loaded pp v s), (snd (set_virtual_loaded pp v s))\<lparr>tool_map := m\<rparr>)"
  by (simp add: set_virtual_loaded_def split: option.splits)

lemma set_timer_tool_map:
  "set_timer E r d a (s\<lparr>tool_map := m\<rparr>)
     = (fst (set_timer E r d a s), (snd (set_timer E r d a s))\<lparr>tool_map := m\<rparr>)"
  by (simp add: set_timer_def Let_def split: option.splits)

lemma modify_tool_tool_map:
  "modify_tool n f (s\<lparr>tool_map := m\<rparr>)
     = (fst (modify_tool n f s), (snd (modify_tool n f s))\<lparr>tool_map := m\<rparr>)"
  by (simp add: modify_tool_def split: option.splits)

lemma Temperature_wait_tool_map:
  "Temperature_wait_with_tolerance E h tol (s\<lparr>tool_map := m\<rparr>)
     = (fst (Temperature_wait_with_tolerance E h tol s),
        (snd (Temperature_wait_with_tolerance E h tol s))\<lparr>tool_map := m\<rparr>)"
  by (simp add: Temperature_wait_with_tolerance_def emit_def Let_def split: option.splits)

lemma homed_tool_map:
  "PrinterIsHomedForToolchange E lazy (s\<lparr>tool_map := m\<rparr>)
     = (fst (PrinterIsHomedForToolchange E lazy s),
        (snd (PrinterIsHomedForToolchange E lazy s))\<lparr>tool_map := m\<rparr>)"
  by (simp add: PrinterIsHomedForToolchange_def Let_def)

lemma only_if_tool_map:
  assumes "\<And>s. f (s\<lparr>tool_map := m\<rparr>) = (fst (f s), (snd (f s))\<lparr>tool_map := m\<rparr>)"
  shows "only_if b f (s\<lparr>tool_map := m\<rparr>) = (fst (only_if b f s), (snd (only_if b f s))\<lparr>tool_map := m\<rparr>)"
  using assms by (simp add: only_if_def)

lemma rearm_standby_tool_map:
  "rearm_standby E self T ct (s\<lparr>tool_map := m\<rparr>)
     = (fst (rearm_standby E self T ct s), (snd (rearm_standby E self T ct s))\<lparr>tool_map := m\<rparr>)"
  unfolding rearm_standby_def
  by (auto intro!: run_tool_map simp: only_if_def set_timer_tool_map simp del: run.simps
      split: option.splits)

lemma change_state_tool_map:
  "change_state E self T x h tr c (s\<lparr>tool_map := m\<rparr>)
     = (fst (change_state E self T x h tr c s), (snd (change_state E self T x h tr c s))\<lparr>tool_map := m\<rparr>)"
  unfolding change_state_def
  by (auto intro!: run_tool_map simp: emit_tool_map set_timer_tool_map modify_tool_tool_map
      simp del: run.simps)

lemma set_heater_tool_map:
  "set_heater E self kw (s\<lparr>tool_map := m\<rparr>)
     = (fst (set_heater E self kw s), (snd (set_heater E self kw s))\<lparr>tool_map := m\<rparr>)"
proof -
  have upd: "s\<lparr>tool_map := m, tools := t, trace := tr\<rparr> = (s\<lparr>tools := t, trace := tr\<rparr>)\<lparr>tool_map := m\<rparr>" for t tr
    by simp
  show ?thesis
    unfolding set_heater_def
    by (auto simp: Let_def upd rearm_standby_tool_map change_state_tool_map
        simp del: run.simps intro!: run_tool_map split: option.splits prod.splits)
qed

lemma Pickup_tool_map:
  "Pickup E self (s\<lparr>tool_map := m\<rparr>) = (fst (Pickup E self s), (snd (Pickup E self s))\<lparr>tool_map := m\<rparr>)"
proof (cases "tools s self")
  case None
  then show ?thesis by (simp add: Pickup_def)
next
  case (Some T)
  have h: "(case PrinterIsHomedForToolchange E 0 (s\<lparr>tool_map := m\<rparr>) of
             (homed, s') \<Rightarrow> if \<not> homed then (Some NotHomed, s') else (None, s'))
         = (fst (case PrinterIsHomedForToolchange E 0 s of
             (homed, s') \<Rightarrow> if \<not> homed then (Some NotHomed, s') else (None, s')),
            (snd (case PrinterIsHomedForToolchange E 0 s of
             (homed, s') \<Rightarrow> if \<not> homed then (Some NotHomed, s') else (None, s')))\<lparr>tool_map := m\<rparr>)" for s
    by (simp add: homed_tool_map split: prod.splits)
  show ?thesis
    using Some
    apply (simp add: Pickup_def del: run.simps)
    apply (rule run_tool_map)
    apply (auto simp: emit_tool_map run_hook_tool_map SaveCurrentTool_tool_map h only_if_def
        simp del: run.simps split: option.splits)
    done
qed

lemma Dropoff_tool_map:
  "Dropoff E self f (s\<lparr>tool_map := m\<rparr>) = (fst (Dropoff E self f s), (snd (Dropoff E self f s))\<lparr>tool_map := m\<rparr>)"
  by (simp add: Dropoff_def PrinterIsHomedForToolchange_def run_hook_def emit_def
      SaveCurrentTool_def Let_def split: option.splits)

lemma LoadVirtual_tool_map:
  "LoadVirtual E self (s\<lparr>tool_map := m\<rparr>)
     = (fst (LoadVirtual E self s), (snd (LoadVirtual E self s))\<lparr>tool_map := m\<rparr>)"
  unfolding LoadVirtual_def
  by (auto intro!: run_tool_map simp: emit_tool_map run_virtual_hook_tool_map
      set_virtual_loaded_tool_map SaveCurrentTool_tool_map simp del: run.simps split: option.splits)

lemma UnloadVirtual_tool_map:
  "UnloadVirtual E self (s\<lparr>tool_map := m\<rparr>)
     = (fst (UnloadVirtual E self s), (snd (UnloadVirtual E self s))\<lparr>tool_map := m\<rparr>)"
  unfolding UnloadVirtual_def
  by (auto intro!: run_tool_map simp: emit_tool_map run_virtual_hook_tool_map
      set_virtual_loaded_tool_map SaveCurrentTool_tool_map simp del: run.simps split: option.splits)

lemma heat_and_wait_tool_map:
  "run [set_heater E v [Heater_state HEATER_STATE_ACTIVE], Temperature_wait_with_tolerance E x 2]
       (s\<lparr>tool_map := m\<rparr>)
     = (fst (run [set_heater E v [Heater_state HEATER_STATE_ACTIVE], Temperature_wait_with_tolerance E x 2] s),
        (snd (run [set_heater E v [Heater_state HEATER_STATE_ACTIVE], Temperature_wait_with_tolerance E x 2] s))
          \<lparr>tool_map := m\<rparr>)"
  by (rule run_tool_map) (auto simp: set_heater_tool_map Temperature_wait_tool_map)

lemma unload_resident_tool_map:
  "unload_resident E self T v (s\<lparr>tool_map := m\<rparr>)
     = (fst (unload_resident E self T v s), (snd (unload_resident E self T v s))\<lparr>tool_map := m\<rparr>)"
  unfolding unload_resident_def
  by (auto intro!: run_tool_map simp: only_if_def heat_and_wait_tool_map UnloadVirtual_tool_map
      set_heater_tool_map simp del: run.simps split: option.splits)

lemma mount_selected_tool_map:
  "mount_selected E self T c (s\<lparr>tool_map := m\<rparr>)
     = (fst (mount_selected E self T c s), (snd (mount_selected E self T c s))\<lparr>tool_map := m\<rparr>)"
  unfolding mount_selected_def
  by (auto intro!: run_tool_map simp: only_if_def Pickup_tool_map LoadVirtual_tool_map
      unload_resident_tool_map Let_def simp del: run.simps split: option.splits)

lemma unmount_current_tool_map:
  "unmount_current E T c (s\<lparr>tool_map := m\<rparr>)
     = (fst (unmount_current E T c s), (snd (unmount_current E T c s))\<lparr>tool_map := m\<rparr>)"
proof -
  have upd: "s\<lparr>tool_map := m, trace := tr\<rparr> = (s\<lparr>trace := tr\<rparr>)\<lparr>tool_map := m\<rparr>" for tr
    by simp
  show ?thesis
    by (auto simp: unmount_current_def Let_def upd Dropoff_tool_map UnloadVirtual_tool_map
        split: option.splits prod.splits)
qed

lemma select_tool_actual_tool_map:
  "select_tool_actual E self rm (s\<lparr>tool_map := m\<rparr>)
     = (fst (select_tool_actual E self rm s), (snd (select_tool_actual E self rm s))\<lparr>tool_map := m\<rparr>)"
proof (cases "tools s self")
  case None
  then show ?thesis by (simp add: select_tool_actual_def)
next
  case (Some T)
  have um: "(case unmount_current E T c (s\<lparr>tool_map := m\<rparr>) of
               (Inl e, s') \<Rightarrow> (Some e, s')
             | (Inr c', s') \<Rightarrow> mount_selected E self T c' s')
          = (fst (case unmount_current E T c s of
               (Inl e, s') \<Rightarrow> (Some e, s')
             | (Inr c', s') \<Rightarrow> mount_selected E self T c' s'),
             (snd (case unmount_current E T c s of
               (Inl e, s') \<Rightarrow> (Some e, s')
             | (Inr c', s') \<Rightarrow> mount_selected E self T c' s'))\<lparr>tool_map := m\<rparr>)" for c s
    by (simp add: unmount_current_tool_map mount_selected_tool_map split: prod.splits sum.splits)
  show ?thesis
    using Some
    apply (simp add: select_tool_actual_def Let_def del: run.simps)
    apply (intro impI run_tool_map)
    apply (auto simp: emit_tool_map SaveCurrentTool_tool_map set_heater_tool_map um only_if_def
        simp del: run.simps)
    done
qed

text \<open>
  What a selection that returns has done: the hook it ran last is the pickup hook of the
  selected tool, or its virtual-load hook when the tool is virtual, and the table is the one
  it started with. With no tool mounted, on a homed machine, the selection of a tool that
  is not virtual returns, and the one hook it runs is the pickup hook of that tool.
\<close>

lemma Pickup_returns_hooks:
  "Pickup E self s = (None, s') \<Longrightarrow> hooks_of (trace s') = hooks_of (trace s) @ [(PickupHook, self)]"
  by (auto simp: Pickup_def emit_def PrinterIsHomedForToolchange_def run_hook_def only_if_def
      SaveCurrentTool_def Let_def hooks_of_append
      split: option.splits if_splits prod.splits)

lemma LoadVirtual_returns_hooks:
  "LoadVirtual E self s = (None, s') \<Longrightarrow>
     hooks_of (trace s') = hooks_of (trace s) @ [(LoadVirtualHook, self)]"
  by (auto simp: LoadVirtual_def emit_def run_virtual_hook_def run_hook_def set_virtual_loaded_def
      SaveCurrentTool_def Let_def hooks_of_append
      split: option.splits if_splits prod.splits)

lemma mount_selected_last_hook:
  assumes "mount_selected E self T c s = (None, s')"
  shows "\<exists>pre. hooks_of (trace s') = pre @ [(if is_virtual T then LoadVirtualHook else PickupHook, self)]"
proof (cases "is_virtual T")
  case False
  with assms have "Pickup E self s = (None, s')" by (simp add: mount_selected_def)
  from Pickup_returns_hooks[OF this] False show ?thesis by auto
next
  case True
  have "\<exists>s0. LoadVirtual E self s0 = (None, s')"
    using assms True
    by (auto simp: mount_selected_def Let_def split: option.splits if_splits prod.splits)
  then obtain s0 where "LoadVirtual E self s0 = (None, s')" ..
  from LoadVirtual_returns_hooks[OF this] True show ?thesis by auto
qed

lemma select_tool_actual_last_hook:
  assumes "select_tool_actual E self rm s = (None, s')" and "tools s self = Some T"
    and "tool_current s \<noteq> self"
  shows "\<exists>pre. hooks_of (trace s') = pre @ [(if is_virtual T then LoadVirtualHook else PickupHook, self)]"
proof -
  have "\<exists>c s0 s1. mount_selected E self T c s0 = (None, s1) \<and> hooks_of (trace s') = hooks_of (trace s1)"
    using assms
    by (auto simp: select_tool_actual_def Let_def SaveCurrentTool_def emit_def hooks_of_append
        split: if_splits option.splits prod.splits sum.splits; blast)
  then obtain c s0 s1 where m: "mount_selected E self T c s0 = (None, s1)"
    and h: "hooks_of (trace s') = hooks_of (trace s1)" by blast
  from mount_selected_last_hook[OF m] h show ?thesis by simp
qed

lemma select_tool_actual_keeps_tool_map:
  "tool_map (snd (select_tool_actual E self rm s)) = tool_map s"
proof -
  have a: "tool_map (snd (select_tool_actual E self rm (s\<lparr>tool_map := m\<rparr>))) = m" for m
    by (subst select_tool_actual_tool_map) simp
  from a[of "tool_map s"] show ?thesis by simp
qed

lemma Pickup_returns:
  assumes "tools s n = Some T" "all_homed (lower (homed_axes E))" "\<not> hook_fails E PickupHook n"
  shows "fst (Pickup E n s) = None"
  using assms
  by (simp add: Pickup_def emit_def PrinterIsHomedForToolchange_def run_hook_def only_if_def
      SaveCurrentTool_def Let_def split: option.splits)

lemma select_physical_tool_from_unlocked:
  assumes T: "tools s n = Some T" "\<not> is_virtual T" and cur: "tool_current s = TOOL_UNLOCKED" "0 \<le> n"
    and homed: "all_homed (lower (homed_axes E))" and hook: "\<not> hook_fails E PickupHook n"
    and heat: "heater_ready E s T"
  shows "\<exists>s'. select_tool_actual E n None s = (None, s')
           \<and> hooks_of (trace s') = hooks_of (trace s) @ [(PickupHook, n)]
           \<and> tool_current s' = n"
proof -
  define s1 where "s1 = s\<lparr>trace := trace s @ [Stat ''toolmounts_started'' n]\<rparr>"
  have f1: "frame s s1"
    by (simp add: s1_def frame_def hooks_of_append)
  obtain r2 s2 where s2: "only_if (extruder T \<noteq> None) (set_heater E n [Heater_state HEATER_STATE_ACTIVE]) s1 = (r2, s2)"
    by (cases "only_if (extruder T \<noteq> None) (set_heater E n [Heater_state HEATER_STATE_ACTIVE]) s1")
  have T1: "tools s1 n = Some T" using T(1) by (simp add: s1_def)
  have r2: "r2 = None"
    using s2 set_heater_active_ok[OF T1 heater_ready_frame[OF f1 heat]]
    by (auto simp: only_if_def split: if_splits)
  have f12: "frame s1 s2"
    using s2 set_heater_frame[of s1 E n "[Heater_state HEATER_STATE_ACTIVE]"]
    by (auto simp: only_if_def frame_refl split: if_splits)
  have f2: "frame s s2" using frame_trans[OF f1 f12] .
  have hk2: "hooks_of (trace s2) = hooks_of (trace s)"
    using f2 by (simp add: frame_def)
  obtain T2 where T2: "tools s2 n = Some T2"
    using frame_tool[OF f2 T(1)] by metis
  obtain r3 s3 where s3: "Pickup E n s2 = (r3, s3)" by (cases "Pickup E n s2")
  have r3: "r3 = None" using Pickup_returns[OF T2 homed hook] s3 by simp
  have hk3: "hooks_of (trace s3) = hooks_of (trace s) @ [(PickupHook, n)]"
    using Pickup_returns_hooks[of E n s2 s3] s3 r3 hk2 by simp
  have um: "unmount_current E T (tool_current s) s2 = (Inr TOOL_UNLOCKED, s2)"
    using cur(1) by (simp add: unmount_current_def)
  have m: "mount_selected E n T TOOL_UNLOCKED s2 = (None, s3)"
    using T(2) s3 r3 by (simp add: mount_selected_def)
  define s5 where "s5 = s3\<lparr>tool_current := n,
      trace := trace s3 @ [SaveVariable n, Stat ''track_selected_tool_start'' n]\<rparr>"
  have ne: "tool_current s \<noteq> n" "\<not> tool_current s < TOOL_UNLOCKED"
    using cur by (simp_all add: TOOL_UNLOCKED_def)
  have sel: "select_tool_actual E n None s = (None, s5)"
    using T(1) ne s2 r2 um m
    by (simp add: select_tool_actual_def emit_def s1_def[symmetric]
        SaveCurrentTool_def s5_def only_if_def)
  have "hooks_of (trace s5) = hooks_of (trace s) @ [(PickupHook, n)]"
    using hk3 by (simp add: s5_def hooks_of_append)
  moreover have "tool_current s5 = n" by (simp add: s5_def)
  ultimately show ?thesis using sel by blast
qed

lemma lower_xyz: "lower ''xyz'' = ''xyz''"
  by code_simp

text \<open>
  Claim C6. Remap resolution is single-hop. \<^verbatim>\<open>T<requested>\<close>, with an entry
  \<open>requested \<mapsto> mapped\<close> in the remap table, is the selection of \<open>mapped\<close>, whatever else
  the table holds:

  \<^item> the command is \<^verbatim>\<open>select_tool_actual\<close> of \<open>mapped\<close>, and where it returns the
    current tool is \<open>mapped\<close>;
  \<^item> the table is looked up once: on every table with the same entry for \<open>requested\<close> the
    command has the same result and reaches the same state (up to the table), so an entry
    for \<open>mapped\<close> plays no part; the command leaves the table as it was;
  \<^item> where the command returns and \<open>mapped\<close> was not the current tool, the last hook run
    is the mount hook of \<open>mapped\<close>: its pickup hook, or its virtual-load hook when it is
    virtual;
  \<^item> with no tool mounted, on a homed machine whose pickup hook succeeds, a \<open>mapped\<close>
    that is not virtual is mounted: the command returns, the one hook it runs is the pickup
    hook of \<open>mapped\<close>, and the current tool is \<open>mapped\<close>.

  On the table \<open>{1 \<mapsto> 2, 2 \<mapsto> 3}\<close> of the example, \<^verbatim>\<open>T1\<close> runs the pickup hook of tool 2
  and no other hook, and tool 2 is the current tool.
\<close>

theorem remap_is_single_hop:
  assumes "tool_map s requested = Some mapped" and "0 \<le> mapped"
    and "parse_restore_type gcmd ''R'' None = Inr rm0"
    and "parse_restore_type gcmd ''RESTORE_POSITION_TYPE'' rm0 = Inr rm"
  shows "cmd_SelectTool E requested gcmd s = select_tool_actual E mapped rm s
         \<and> (\<forall>s'. cmd_SelectTool E requested gcmd s = (None, s') \<longrightarrow> tool_current s' = mapped)
         \<and> (\<forall>m'. m' requested = Some mapped \<longrightarrow>
               cmd_SelectTool E requested gcmd (s\<lparr>tool_map := m'\<rparr>)
                 = (fst (cmd_SelectTool E requested gcmd s),
                    (snd (cmd_SelectTool E requested gcmd s))\<lparr>tool_map := m'\<rparr>))
         \<and> tool_map (snd (cmd_SelectTool E requested gcmd s)) = tool_map s
         \<and> (\<forall>s' T. cmd_SelectTool E requested gcmd s = (None, s') \<and> tools s mapped = Some T
                    \<and> tool_current s \<noteq> mapped \<longrightarrow>
               (\<exists>pre. hooks_of (trace s')
                        = pre @ [(if is_virtual T then LoadVirtualHook else PickupHook, mapped)]))
         \<and> (\<forall>T. tools s mapped = Some T \<and> \<not> is_virtual T \<and> tool_current s = TOOL_UNLOCKED
                  \<and> all_homed (lower (homed_axes E)) \<and> \<not> hook_fails E PickupHook mapped
                  \<and> heater_ready E s T \<and> rm = None \<longrightarrow>
               (\<exists>s'. cmd_SelectTool E requested gcmd s = (None, s')
                     \<and> hooks_of (trace s') = hooks_of (trace s) @ [(PickupHook, mapped)]
                     \<and> tool_current s' = mapped))"
proof -
  have a: "cmd_SelectTool E requested gcmd s = select_tool_actual E mapped rm s"
    using assms by (simp add: cmd_SelectTool_def tool_is_remaped_def)
  have b: "\<forall>s'. cmd_SelectTool E requested gcmd s = (None, s') \<longrightarrow> tool_current s' = mapped"
    using a select_tool_actual_current[of E mapped rm s] by auto
  have c: "cmd_SelectTool E requested gcmd (s\<lparr>tool_map := m'\<rparr>)
                 = (fst (cmd_SelectTool E requested gcmd s),
                    (snd (cmd_SelectTool E requested gcmd s))\<lparr>tool_map := m'\<rparr>)"
    if "m' requested = Some mapped" for m'
  proof -
    have "cmd_SelectTool E requested gcmd (s\<lparr>tool_map := m'\<rparr>)
            = select_tool_actual E mapped rm (s\<lparr>tool_map := m'\<rparr>)"
      using assms(2,3,4) that by (simp add: cmd_SelectTool_def tool_is_remaped_def)
    then show ?thesis
      by (simp add: select_tool_actual_tool_map a)
  qed
  have d: "tool_map (snd (cmd_SelectTool E requested gcmd s)) = tool_map s"
    by (simp add: a select_tool_actual_keeps_tool_map)
  have e: "\<exists>pre. hooks_of (trace s')
                  = pre @ [(if is_virtual T then LoadVirtualHook else PickupHook, mapped)]"
    if "cmd_SelectTool E requested gcmd s = (None, s')" "tools s mapped = Some T"
      "tool_current s \<noteq> mapped" for s' T
    using select_tool_actual_last_hook[of E mapped rm s s' T] that a by simp
  have f: "\<exists>s'. cmd_SelectTool E requested gcmd s = (None, s')
                \<and> hooks_of (trace s') = hooks_of (trace s) @ [(PickupHook, mapped)]
                \<and> tool_current s' = mapped"
    if "tools s mapped = Some T" "\<not> is_virtual T" "tool_current s = TOOL_UNLOCKED"
      "all_homed (lower (homed_axes E))" "\<not> hook_fails E PickupHook mapped"
      "heater_ready E s T" "rm = None" for T
    using select_physical_tool_from_unlocked[OF that(1,2,3) assms(2) that(4,5,6)] a that(7)
    by simp
  show ?thesis
    using a b c d e f by blast
qed

theorem remap_is_single_hop_witness:
  "tool_map remap_state 1 = Some 2 \<and> tool_map remap_state 2 = Some 3
   \<and> cmd_SelectTool example_env 1 Map.empty remap_state
       = select_tool_actual example_env 2 None remap_state
   \<and> fst (cmd_SelectTool example_env 1 Map.empty remap_state) = None
   \<and> hooks_of (trace (snd (cmd_SelectTool example_env 1 Map.empty remap_state))) = [(PickupHook, 2)]
   \<and> tool_current (snd (cmd_SelectTool example_env 1 Map.empty remap_state)) = 2
   \<and> tool_map (snd (cmd_SelectTool example_env 1 Map.empty remap_state)) = tool_map remap_state"
proof -
  have m: "tool_map remap_state 1 = Some 2" "tool_map remap_state 2 = Some 3"
    by (simp_all add: remap_state_def)
  have p: "parse_restore_type Map.empty ''R'' None = Inr None"
    "parse_restore_type Map.empty ''RESTORE_POSITION_TYPE'' None = Inr None"
    by (simp_all add: parse_restore_type_def)
  have T: "tools remap_state 2 = Some (example_tool False (Some 2) (Some ''extruder'')
              (Some (2, TIMER_TO_STANDBY)) (Some (2, TIMER_TO_SHUTDOWN)))"
    by (simp add: remap_state_def example_state_def example_tools_def)
  have nv: "\<not> is_virtual (example_tool False (Some 2) (Some ''extruder'')
              (Some (2, TIMER_TO_STANDBY)) (Some (2, TIMER_TO_SHUTDOWN)))"
    by (simp add: example_tool_def)
  have cur: "tool_current remap_state = TOOL_UNLOCKED"
    by (simp add: remap_state_def example_state_def TOOL_UNLOCKED_def)
  have homed: "all_homed (lower (homed_axes example_env))"
    by (simp add: example_env_def lower_xyz all_homed_def)
  have hook: "\<not> hook_fails example_env PickupHook 2"
    by (simp add: example_env_def)
  have heat: "heater_ready example_env remap_state (example_tool False (Some 2) (Some ''extruder'')
              (Some (2, TIMER_TO_STANDBY)) (Some (2, TIMER_TO_SHUTDOWN)))"
    by (simp add: heater_ready_def example_tool_def example_env_def remap_state_def example_state_def)
  have tr: "trace remap_state = []"
    by (simp add: remap_state_def example_state_def)
  have z: "(0::int) \<le> 2" by simp
  note th = remap_is_single_hop[OF m(1) z p, of example_env]
  have eq: "cmd_SelectTool example_env 1 Map.empty remap_state
              = select_tool_actual example_env 2 None remap_state"
    using th by blast
  have keep: "tool_map (snd (cmd_SelectTool example_env 1 Map.empty remap_state)) = tool_map remap_state"
    using th by blast
  have mount: "\<exists>s'. cmd_SelectTool example_env 1 Map.empty remap_state = (None, s')
         \<and> hooks_of (trace s') = hooks_of (trace remap_state) @ [(PickupHook, 2)]
         \<and> tool_current s' = 2"
    using th T nv cur homed hook heat by blast
  from mount obtain s' where s': "cmd_SelectTool example_env 1 Map.empty remap_state = (None, s')"
    "hooks_of (trace s') = hooks_of (trace remap_state) @ [(PickupHook, 2)]" "tool_current s' = 2"
    by blast
  have sel: "select_tool_actual example_env 2 None remap_state = (None, s')"
    using eq s'(1) by simp
  show ?thesis
    using m keep s' sel tr by simp
qed

end
